theory Spec2Isabelle
  imports Main
begin

section \<open>The version synchronisation script \<^verbatim>\<open>scripts/sync-cargo-version.js\<close>\<close>

text \<open>
  The script is an ES module that runs top to bottom: it reads \<^verbatim>\<open>package.json\<close>, takes its
  \<^verbatim>\<open>version\<close>, parses \<^verbatim>\<open>src-tauri/Cargo.toml\<close> with smol-toml, assigns
  \<^verbatim>\<open>cargo.package.version\<close>, writes the serialised document back and amends the last commit.
  The model follows it statement by statement. The file system, the git repository and the
  console are an explicit state; an exception is a value; the JSON parser and the two smol-toml
  functions, which are not code of this repository, are parameters.
\<close>

subsection \<open>JavaScript values\<close>

text \<open>
  The values \<^verbatim>\<open>JSON.parse\<close> and smol-toml's \<^verbatim>\<open>parse\<close> return. A number is kept as its
  decimal string form (what \<^verbatim>\<open>String(n)\<close> gives), a date as its string form. An object is the
  list of its own properties in insertion order; an array and a date are objects too and carry
  the own properties assigned to them besides their elements.
\<close>

datatype js_value =
    JUndefined
  | JNull
  | JBool bool
  | JNumber string
  | JString string
  | JObject "(string \<times> js_value) list"
  | JArray "js_value list" "(string \<times> js_value) list"
  | JDate string "(string \<times> js_value) list"

datatype js_error =
    ENOENT string
  | EACCES string
  | SyntaxError
  | TomlError
  | TypeError

fun is_object :: "js_value \<Rightarrow> bool" where
  "is_object (JObject ps) = True"
| "is_object (JArray xs ps) = True"
| "is_object (JDate d ps) = True"
| "is_object v = False"

fun own_properties :: "js_value \<Rightarrow> (string \<times> js_value) list" where
  "own_properties (JObject ps) = ps"
| "own_properties (JArray xs ps) = ps"
| "own_properties (JDate d ps) = ps"
| "own_properties v = []"

fun with_properties :: "js_value \<Rightarrow> (string \<times> js_value) list \<Rightarrow> js_value" where
  "with_properties (JObject ps) qs = JObject qs"
| "with_properties (JArray xs ps) qs = JArray xs qs"
| "with_properties (JDate d ps) qs = JDate d qs"
| "with_properties v qs = v"

fun lookup :: "(string \<times> js_value) list \<Rightarrow> string \<Rightarrow> js_value" where
  "lookup [] k = JUndefined"
| "lookup ((k', v) # ps) k = (if k' = k then v else lookup ps k)"

text \<open>Assigning an own property keeps the place of an existing key and appends a new one.\<close>

fun assign :: "(string \<times> js_value) list \<Rightarrow> string \<Rightarrow> js_value \<Rightarrow> (string \<times> js_value) list" where
  "assign [] k v = [(k, v)]"
| "assign ((k', v') # ps) k v = (if k' = k then (k, v) # ps else (k', v') # assign ps k v)"

text \<open>
  \<^verbatim>\<open>o.k\<close> for a key \<open>k\<close> that no built-in prototype defines and that is not an array index
  (the script reads \<^verbatim>\<open>version\<close> and \<^verbatim>\<open>package\<close>): reading from \<^verbatim>\<open>undefined\<close> or \<^verbatim>\<open>null\<close>
  throws, a primitive has no such property.
\<close>

fun get_property :: "js_value \<Rightarrow> string \<Rightarrow> js_error + js_value" where
  "get_property JUndefined k = Inl TypeError"
| "get_property JNull k = Inl TypeError"
| "get_property v k = Inr (lookup (own_properties v) k)"

text \<open>
  \<^verbatim>\<open>o.k = v\<close> in strict mode (an ES module is strict): assigning to \<^verbatim>\<open>undefined\<close>, \<^verbatim>\<open>null\<close> or
  a primitive throws a TypeError; an object, an array or a date gets the own property. The
  result is the object after the assignment.
\<close>

definition set_property :: "js_value \<Rightarrow> string \<Rightarrow> js_value \<Rightarrow> js_error + js_value" where
  "set_property obj k v =
     (if is_object obj then Inr (with_properties obj (assign (own_properties obj) k v))
      else Inl TypeError)"

text \<open>
  \<^verbatim>\<open>cargo.package.version = version\<close> (line 35). The object \<^verbatim>\<open>cargo.package\<close> is mutated in
  place, so \<^verbatim>\<open>cargo\<close> sees the change at the place its \<^verbatim>\<open>package\<close> key already has.
\<close>

definition set_package_version :: "js_value \<Rightarrow> js_value \<Rightarrow> js_error + js_value" where
  "set_package_version cargo version =
     (case get_property cargo ''package'' of
        Inl e \<Rightarrow> Inl e
      | Inr pkg \<Rightarrow>
          (case set_property pkg ''version'' version of
             Inl e \<Rightarrow> Inl e
           | Inr pkg' \<Rightarrow> Inr (with_properties cargo (assign (own_properties cargo) ''package'' pkg'))))"

text \<open>
  \<^verbatim>\<open>${v}\<close> in a template literal: the string conversion of a value. A plain object prints as
  \<^verbatim>\<open>[object Object]\<close>, an array joins its elements with commas (\<^verbatim>\<open>null\<close> and \<^verbatim>\<open>undefined\<close>
  elements print as nothing). An own property \<^verbatim>\<open>toString\<close> of a parsed value is never a
  function, so the conversion of such an object throws; an array whose own \<^verbatim>\<open>join\<close> is not a
  function prints as \<^verbatim>\<open>[object Array]\<close>.
\<close>

fun to_string :: "js_value \<Rightarrow> js_error + string"
  and join_elements :: "js_value list \<Rightarrow> js_error + string"
  and element_string :: "js_value \<Rightarrow> js_error + string" where
  "to_string JUndefined = Inr ''undefined''"
| "to_string JNull = Inr ''null''"
| "to_string (JBool b) = Inr (if b then ''true'' else ''false'')"
| "to_string (JNumber n) = Inr n"
| "to_string (JString s) = Inr s"
| "to_string (JObject ps) =
     (if ''toString'' \<in> fst ` set ps then Inl TypeError else Inr ''[object Object]'')"
| "to_string (JArray xs ps) =
     (if ''toString'' \<in> fst ` set ps then Inl TypeError
      else if ''join'' \<in> fst ` set ps then Inr ''[object Array]''
      else join_elements xs)"
| "to_string (JDate d ps) =
     (if ''toString'' \<in> fst ` set ps then Inl TypeError else Inr d)"
| "join_elements [] = Inr []"
| "join_elements [x] = element_string x"
| "join_elements (x # y # ys) =
     (case element_string x of
        Inl e \<Rightarrow> Inl e
      | Inr a \<Rightarrow> (case join_elements (y # ys) of Inl e \<Rightarrow> Inl e | Inr b \<Rightarrow> Inr (a @ '','' @ b)))"
| "element_string JUndefined = Inr []"
| "element_string JNull = Inr []"
| "element_string (JBool b) = to_string (JBool b)"
| "element_string (JNumber n) = to_string (JNumber n)"
| "element_string (JString s) = to_string (JString s)"
| "element_string (JObject ps) = to_string (JObject ps)"
| "element_string (JArray xs ps) = to_string (JArray xs ps)"
| "element_string (JDate d ps) = to_string (JDate d ps)"

text \<open>A dotted field path, read key by key.\<close>

fun field_at :: "js_value \<Rightarrow> string list \<Rightarrow> js_error + js_value" where
  "field_at v [] = Inr v"
| "field_at v (k # ks) = (case get_property v k of Inl e \<Rightarrow> Inl e | Inr w \<Rightarrow> field_at w ks)"

subsection \<open>The process state: files, repository, console\<close>

text \<open>
  Every call the script makes to the outside is recorded, in order: a file read or written, a
  shell command with its working directory, a line on standard output or standard error.
\<close>

datatype event =
    Read string
  | Write string string
  | Exec string string
  | Log string
  | LogError string

record commit =
  message :: string
  tree :: "string \<rightharpoonup> string"

record state =
  files :: "string \<rightharpoonup> string"
  read_only :: "string set"
  work_tree :: bool
  index :: "string \<rightharpoonup> string"
  head :: "commit option"
  amend_blocked :: bool
  hooks_accept :: bool
  editor_message :: string
  trace :: "event list"

text \<open>What stops the script: an exception nobody catches, or \<^verbatim>\<open>process.exit(n)\<close>.\<close>

datatype stop = Throw js_error | ProcessExit nat

type_synonym 'a action = "state \<Rightarrow> (stop + 'a) \<times> state"

definition seq :: "'a action \<Rightarrow> ('a \<Rightarrow> 'b action) \<Rightarrow> 'b action" where
  "seq m f s = (case m s of (Inl e, s') \<Rightarrow> (Inl e, s') | (Inr x, s') \<Rightarrow> f x s')"

definition lift :: "js_error + 'a \<Rightarrow> 'a action" where
  "lift r s = (case r of Inl e \<Rightarrow> (Inl (Throw e), s) | Inr x \<Rightarrow> (Inr x, s))"

definition record_event :: "event \<Rightarrow> state \<Rightarrow> state" where
  "record_event e s = s\<lparr>trace := trace s @ [e]\<rparr>"

text \<open>
  The exit status of the process: 0 when the module runs to its end, 1 after an uncaught
  exception, \<open>n\<close> after \<^verbatim>\<open>process.exit(n)\<close>.
\<close>

fun exit_status :: "stop + unit \<Rightarrow> nat" where
  "exit_status (Inr u) = 0"
| "exit_status (Inl (Throw e)) = 1"
| "exit_status (Inl (ProcessExit n)) = n"

definition readFileSync :: "string \<Rightarrow> string action" where
  "readFileSync path s =
     (case files s path of
        None \<Rightarrow> (Inl (Throw (ENOENT path)), record_event (Read path) s)
      | Some text \<Rightarrow> (Inr text, record_event (Read path) s))"

definition writeFileSync :: "string \<Rightarrow> string \<Rightarrow> unit action" where
  "writeFileSync path data s =
     (if path \<in> read_only s then (Inl (Throw (EACCES path)), record_event (Write path data) s)
      else (Inr (), record_event (Write path data) (s\<lparr>files := (files s)(path \<mapsto> data)\<rparr>)))"

definition console_log :: "string \<Rightarrow> unit action" where
  "console_log line s = (Inr (), record_event (Log line) s)"

definition console_error :: "string \<Rightarrow> string \<Rightarrow> unit action" where
  "console_error a b s = (Inr (), record_event (LogError (a @ '' '' @ b)) s)"

text \<open>\<^verbatim>\<open>path.join\<close> on segments that need no normalisation.\<close>

fun path_join :: "string list \<Rightarrow> string" where
  "path_join [] = ''.''"
| "path_join [p] = p"
| "path_join (p # q # ps) = p @ ''/'' @ path_join (q # ps)"

subsection \<open>The version-control tool\<close>

text \<open>
  Modelled from the spec: git itself is an external program, reached through
  \<^verbatim>\<open>execSync\<close>; section 4.4 of the specification gives the two operations the script uses and
  the ways they fail. Staging a path fails when the directory is not inside a working tree or
  the path does not exist; otherwise the file's current content becomes the index entry of
  that path and of no other. Amending fails when there is no commit, when the repository is
  in a state that blocks it (a merge in progress, conflicts, a hook that cannot be bypassed),
  or when the commit hooks are run (no \<^verbatim>\<open>--no-verify\<close>) and reject. Otherwise HEAD is replaced
  by a commit whose tree is the index and whose message is the old one under \<^verbatim>\<open>--no-edit\<close>,
  the editor's otherwise. A failing command changes nothing.
\<close>

definition command_failed :: "string \<Rightarrow> string \<Rightarrow> string" where
  "command_failed command err = ''Command failed: '' @ command @ [CHR 0x0A] @ err"

definition git_add :: "string \<Rightarrow> state \<Rightarrow> (string + unit) \<times> state" where
  "git_add path s =
     (if \<not> work_tree s then (Inl ''fatal: not a git repository'', s)
      else (case files s path of
              None \<Rightarrow> (Inl ''fatal: pathspec did not match any files'', s)
            | Some text \<Rightarrow> (Inr (), s\<lparr>index := (index s)(path \<mapsto> text)\<rparr>)))"

definition git_commit_amend :: "bool \<Rightarrow> bool \<Rightarrow> state \<Rightarrow> (string + unit) \<times> state" where
  "git_commit_amend no_edit no_verify s =
     (if \<not> work_tree s then (Inl ''fatal: not a git repository'', s)
      else (case head s of
              None \<Rightarrow> (Inl ''fatal: You have nothing to amend.'', s)
            | Some c \<Rightarrow>
                if amend_blocked s then (Inl ''fatal: cannot amend in this state'', s)
                else if \<not> no_verify \<and> \<not> hooks_accept s then (Inl ''hook declined'', s)
                else (Inr (), s\<lparr>head := Some \<lparr>message = (if no_edit then message c else editor_message s),
                                              tree = index s\<rparr>\<rparr>)))"

fun split_words :: "string \<Rightarrow> string list" where
  "split_words [] = [[]]"
| "split_words (c # cs) =
     (if c = CHR '' '' then [] # split_words cs
      else (case split_words cs of [] \<Rightarrow> [[c]] | w # ws \<Rightarrow> (c # w) # ws))"

text \<open>
  \<^verbatim>\<open>execSync(command, { cwd })\<close>: runs the command in \<open>cwd\<close> and throws an Error, whose
  message is the left result, when it exits with a status other than 0. Only the two forms of
  command line that the script issues are understood; a path given to \<^verbatim>\<open>git add\<close> is relative
  to \<open>cwd\<close>.
\<close>

definition execSync :: "string \<Rightarrow> string \<Rightarrow> state \<Rightarrow> (string + unit) \<times> state" where
  "execSync command cwd s =
     (let s' = record_event (Exec command cwd) s;
          argv = split_words command;
          result =
            (if length argv = 3 \<and> take 2 argv = [''git'', ''add'']
             then git_add (path_join [cwd, argv ! 2]) s'
             else if 3 \<le> length argv \<and> take 3 argv = [''git'', ''commit'', ''--amend'']
             then git_commit_amend (''--no-edit'' \<in> set argv) (''--no-verify'' \<in> set argv) s'
             else (Inl ''command not found'', s'))
      in (case result of
            (Inl err, s'') \<Rightarrow> (Inl (command_failed command err), s'')
          | (Inr u, s'') \<Rightarrow> (Inr u, s'')))"

subsection \<open>The script\<close>

text \<open>
  The libraries the script imports and does not define: \<^verbatim>\<open>JSON.parse\<close>, and \<^verbatim>\<open>parse\<close> and
  \<^verbatim>\<open>stringify\<close> of smol-toml. Each returns a value or throws.
\<close>

record lib =
  JSON_parse :: "string \<Rightarrow> js_error + js_value"
  parse :: "string \<Rightarrow> js_error + js_value"
  stringify :: "js_value \<Rightarrow> js_error + string"

definition packageJsonPath :: "string \<Rightarrow> string" where
  "packageJsonPath rootDir = path_join [rootDir, ''package.json'']"

definition cargoTomlPath :: "string \<Rightarrow> string" where
  "cargoTomlPath rootDir = path_join [rootDir, ''src-tauri'', ''Cargo.toml'']"

text \<open>The four message texts, as the UTF-8 bytes of the source's template literals.\<close>

definition msg_current_version :: string where
  "msg_current_version =
     [CHR 0xF0, CHR 0x9F, CHR 0x93, CHR 0xA6] @ '' '' @
     [CHR 0xE5, CHR 0xBD, CHR 0x93, CHR 0xE5, CHR 0x89, CHR 0x8D,
      CHR 0xE7, CHR 0x89, CHR 0x88, CHR 0xE6, CHR 0x9C, CHR 0xAC] @ '': ''"

definition msg_updated :: string where
  "msg_updated =
     [CHR 0xE2, CHR 0x9C, CHR 0x85] @ '' '' @
     [CHR 0xE5, CHR 0xB7, CHR 0xB2, CHR 0xE6, CHR 0x9B, CHR 0xB4, CHR 0xE6, CHR 0x96, CHR 0xB0] @
     '' src-tauri/Cargo.toml '' @
     [CHR 0xE7, CHR 0x89, CHR 0x88, CHR 0xE6, CHR 0x9C, CHR 0xAC, CHR 0xE4, CHR 0xB8, CHR 0xBA] @ '' ''"

definition msg_added :: string where
  "msg_added =
     [CHR 0xE2, CHR 0x9C, CHR 0x85] @ '' '' @
     [CHR 0xE5, CHR 0xB7, CHR 0xB2, CHR 0xE5, CHR 0xB0, CHR 0x86] @ '' Cargo.toml '' @
     [CHR 0xE6, CHR 0xB7, CHR 0xBB, CHR 0xE5, CHR 0x8A, CHR 0xA0, CHR 0xE5, CHR 0x88, CHR 0xB0] @
     '' release commit''"

definition msg_failed :: string where
  "msg_failed =
     [CHR 0xE2, CHR 0x9D, CHR 0x8C] @ '' amend commit '' @
     [CHR 0xE5, CHR 0xA4, CHR 0xB1, CHR 0xE8, CHR 0xB4, CHR 0xA5] @ '':''"

text \<open>\<^verbatim>\<open>console.log(`...${v}`)\<close>: the template is evaluated first, then the line is printed.\<close>

definition log_with :: "string \<Rightarrow> js_value \<Rightarrow> unit action" where
  "log_with prefix v = seq (lift (to_string v)) (\<lambda>text. console_log (prefix @ text))"

text \<open>Lines 23 to 26: read \<^verbatim>\<open>package.json\<close>, take its \<^verbatim>\<open>version\<close>, print it.\<close>

definition read_version :: "lib \<Rightarrow> string \<Rightarrow> js_value action" where
  "read_version L rootDir =
     seq (readFileSync (packageJsonPath rootDir)) (\<lambda>text.
     seq (lift (JSON_parse L text)) (\<lambda>packageJson.
     seq (lift (get_property packageJson ''version'')) (\<lambda>version.
     seq (log_with msg_current_version version) (\<lambda>u.
     lift (Inr version)))))"

text \<open>
  Lines 29 to 40: read and parse \<^verbatim>\<open>Cargo.toml\<close>, assign the version, write the serialised
  document back, print the confirmation. The argument of \<^verbatim>\<open>writeFileSync\<close> is evaluated before
  the call, so an exception of \<^verbatim>\<open>stringify\<close> comes before any write.
\<close>

definition update_cargo :: "lib \<Rightarrow> string \<Rightarrow> js_value \<Rightarrow> unit action" where
  "update_cargo L rootDir version =
     seq (readFileSync (cargoTomlPath rootDir)) (\<lambda>cargoToml.
     seq (lift (parse L cargoToml)) (\<lambda>cargo.
     seq (lift (set_package_version cargo version)) (\<lambda>cargo'.
     seq (lift (stringify L cargo')) (\<lambda>text.
     seq (writeFileSync (cargoTomlPath rootDir) text) (\<lambda>u.
     log_with msg_updated version)))))"

text \<open>
  Lines 43 to 50: the \<^verbatim>\<open>try\<close> block runs the two git commands and prints the confirmation;
  the \<^verbatim>\<open>catch\<close> block prints the error's message and ends the process with status 1.
\<close>

definition catch_block :: "string \<Rightarrow> unit action" where
  "catch_block error_message s =
     (case console_error msg_failed error_message s of (r, s') \<Rightarrow> (Inl (ProcessExit 1), s'))"

definition amend_commit :: "string \<Rightarrow> unit action" where
  "amend_commit rootDir s =
     (case execSync ''git add src-tauri/Cargo.toml'' rootDir s of
        (Inl m, s1) \<Rightarrow> catch_block m s1
      | (Inr u, s1) \<Rightarrow>
          (case execSync ''git commit --amend --no-edit --no-verify'' rootDir s1 of
             (Inl m, s2) \<Rightarrow> catch_block m s2
           | (Inr u, s2) \<Rightarrow> console_log msg_added s2))"

definition sync_cargo_version :: "lib \<Rightarrow> string \<Rightarrow> unit action" where
  "sync_cargo_version L rootDir =
     seq (read_version L rootDir) (\<lambda>version.
     seq (update_cargo L rootDir version) (\<lambda>u.
     amend_commit rootDir))"

subsection \<open>Observations on a run\<close>

definition add_command :: string where
  "add_command = ''git add src-tauri/Cargo.toml''"

definition amend_command :: string where
  "amend_command = ''git commit --amend --no-edit --no-verify''"

text \<open>The lines printed on standard output, the commands run and the files written, in order.\<close>

fun logged :: "event list \<Rightarrow> string list" where
  "logged [] = []"
| "logged (Log line # es) = line # logged es"
| "logged (e # es) = logged es"

fun commands :: "event list \<Rightarrow> (string \<times> string) list" where
  "commands [] = []"
| "commands (Exec c d # es) = (c, d) # commands es"
| "commands (e # es) = commands es"

fun written :: "event list \<Rightarrow> (string \<times> string) list" where
  "written [] = []"
| "written (Write p d # es) = (p, d) # written es"
| "written (e # es) = written es"

text \<open>The \<^verbatim>\<open>package\<close> table of a parsed manifest, when it has one.\<close>

fun package_table :: "js_value \<Rightarrow> (string \<times> js_value) list option" where
  "package_table (JObject root) =
     (case lookup root ''package'' of JObject ps \<Rightarrow> Some ps | other \<Rightarrow> None)"
| "package_table v = None"

fun starts_with :: "string \<Rightarrow> string \<Rightarrow> bool" where
  "starts_with [] ys = True"
| "starts_with (x # xs) [] = False"
| "starts_with (x # xs) (y # ys) = (x = y \<and> starts_with xs ys)"

fun contains :: "string \<Rightarrow> string \<Rightarrow> bool" where
  "contains sub [] = (sub = [])"
| "contains sub (y # ys) = (starts_with sub (y # ys) \<or> contains sub ys)"

text \<open>
  The specification's frame condition on texts, in its own words: the text written back
  ``differs from the original serialization only in the textual representation of the field''.
  Two texts are compared by taking away their common beginning and their common end; what is
  left of each is the part that changed. A change confined to one field's value stays within
  one line.
\<close>

fun strip_common_prefix :: "string \<Rightarrow> string \<Rightarrow> string \<times> string" where
  "strip_common_prefix (x # xs) (y # ys) =
     (if x = y then strip_common_prefix xs ys else (x # xs, y # ys))"
| "strip_common_prefix xs ys = (xs, ys)"

definition changed_span :: "string \<Rightarrow> string \<Rightarrow> string \<times> string" where
  "changed_span a b =
     (case strip_common_prefix a b of
        (a1, b1) \<Rightarrow> (case strip_common_prefix (rev a1) (rev b1) of (a2, b2) \<Rightarrow> (rev a2, rev b2)))"

definition differs_in_one_field_only :: "string \<Rightarrow> string \<Rightarrow> bool" where
  "differs_in_one_field_only a b =
     (case changed_span a b of (x, y) \<Rightarrow> CHR 0x0A \<notin> set x \<and> CHR 0x0A \<notin> set y)"

subsection \<open>Example inputs\<close>

text \<open>
  A repository in \<^verbatim>\<open>/repo\<close> whose \<^verbatim>\<open>package.json\<close> and \<^verbatim>\<open>src-tauri/Cargo.toml\<close> hold the given
  texts (no \<^verbatim>\<open>package.json\<close> for \<open>None\<close>), with the given HEAD commit and an empty index.
\<close>

definition sample_root :: string where
  "sample_root = ''/repo''"

definition repo_state :: "string option \<Rightarrow> string \<Rightarrow> commit option \<Rightarrow> state" where
  "repo_state pkg cargo h =
     \<lparr>files = (\<lambda>p. if p = cargoTomlPath sample_root then Some cargo
                    else if p = packageJsonPath sample_root then pkg else None),
      read_only = {}, work_tree = True, index = Map.empty, head = h,
      amend_blocked = False, hooks_accept = False, editor_message = [], trace = []\<rparr>"

definition release_commit :: commit where
  "release_commit = \<lparr>message = ''chore(release): 0.1.7'', tree = Map.empty\<rparr>"

definition json_text :: "string \<Rightarrow> string" where
  \<open>json_text v = ''{"version": "'' @ v @ ''"}''\<close>

definition json_object_version :: string where
  \<open>json_object_version = ''{"version": {"toString": 1}}''\<close>

definition toml_text :: "string \<Rightarrow> string" where
  \<open>toml_text v = ''[package]\<newline>name = "prism"\<newline>version = "'' @ v @
     ''"\<newline>\<newline>[dependencies]\<newline>serde = "1"\<newline>''\<close>

definition toml_commented :: string where
  \<open>toml_commented = ''# bumped by the release script\<newline>'' @ toml_text ''0.1.4''\<close>

definition toml_array :: string where
  \<open>toml_array = ''package = []\<newline>''\<close>

definition toml_no_package :: string where
  \<open>toml_no_package = ''[dependencies]\<newline>serde = "1"\<newline>''\<close>

definition cargo_doc :: "string \<Rightarrow> js_value" where
  "cargo_doc v =
     JObject [(''package'', JObject [(''name'', JString ''prism''), (''version'', JString v)]),
              (''dependencies'', JObject [(''serde'', JString ''1'')])]"

text \<open>
  The three library functions at the texts and documents of the examples: what a JSON parser
  and a TOML parser and serialiser give there (a TOML parser drops comments; an array keeps no
  property that is not an element when it is serialised). Every other input is answered with
  an error; no example reaches one.
\<close>

definition sample_lib :: lib where
  "sample_lib =
     \<lparr>JSON_parse = (\<lambda>t.
        if t = json_text ''0.1.7'' then Inr (JObject [(''version'', JString ''0.1.7'')])
        else if t = json_text [] then Inr (JObject [(''version'', JString [])])
        else if t = ''{}'' then Inr (JObject [])
        else if t = json_object_version
        then Inr (JObject [(''version'', JObject [(''toString'', JNumber ''1'')])])
        else Inl SyntaxError),
      parse = (\<lambda>t.
        if t = toml_text ''0.1.4'' \<or> t = toml_commented then Inr (cargo_doc ''0.1.4'')
        else if t = toml_text ''0.1.7'' then Inr (cargo_doc ''0.1.7'')
        else if t = toml_text [] then Inr (cargo_doc [])
        else if t = toml_array then Inr (JObject [(''package'', JArray [] [])])
        else if t = toml_no_package
        then Inr (JObject [(''dependencies'', JObject [(''serde'', JString ''1'')])])
        else Inl TomlError),
      stringify = (\<lambda>d.
        if d = cargo_doc ''0.1.7'' then Inr (toml_text ''0.1.7'')
        else if d = cargo_doc [] then Inr (toml_text [])
        else if d = JObject [(''package'', JArray [] [(''version'', JString ''0.1.7'')])]
        then Inr toml_array
        else Inl TypeError)\<rparr>"

section \<open>Properties\<close>

subsection \<open>The stages of a run\<close>

lemmas io_defs = seq_def lift_def readFileSync_def writeFileSync_def console_log_def
  console_error_def record_event_def log_with_def

lemma argv_add:
  "split_words ''git add src-tauri/Cargo.toml'' = [''git'', ''add'', ''src-tauri/Cargo.toml'']"
  by simp

lemma argv_amend:
  "split_words ''git commit --amend --no-edit --no-verify'' =
     [''git'', ''commit'', ''--amend'', ''--no-edit'', ''--no-verify'']"
  by simp

text \<open>The path that \<^verbatim>\<open>git add\<close> is given, seen from \<open>rootDir\<close>, is the file the script wrote.\<close>

lemma staged_path: "path_join [r, ''src-tauri/Cargo.toml''] = cargoTomlPath r"
  by (simp add: cargoTomlPath_def)

lemma execSync_add:
  "execSync ''git add src-tauri/Cargo.toml'' r s =
     (case git_add (cargoTomlPath r) (record_event (Exec ''git add src-tauri/Cargo.toml'' r) s) of
        (Inl err, s') \<Rightarrow> (Inl (command_failed ''git add src-tauri/Cargo.toml'' err), s')
      | (Inr u, s') \<Rightarrow> (Inr u, s'))"
  unfolding execSync_def Let_def argv_add staged_path[symmetric] by simp

lemma execSync_amend:
  "execSync ''git commit --amend --no-edit --no-verify'' r s =
     (case git_commit_amend True True
             (record_event (Exec ''git commit --amend --no-edit --no-verify'' r) s) of
        (Inl err, s') \<Rightarrow> (Inl (command_failed ''git commit --amend --no-edit --no-verify'' err), s')
      | (Inr u, s') \<Rightarrow> (Inr u, s'))"
  unfolding execSync_def Let_def argv_amend by simp

lemma read_version_ok:
  assumes "read_version L r s = (Inr v, s1)"
  shows "\<exists>t doc text. files s (packageJsonPath r) = Some t \<and> JSON_parse L t = Inr doc \<and>
           get_property doc ''version'' = Inr v \<and> to_string v = Inr text \<and>
           s1 = s\<lparr>trace := trace s @ [Read (packageJsonPath r), Log (msg_current_version @ text)]\<rparr>"
  using assms unfolding read_version_def io_defs
  by (auto split: option.splits sum.splits prod.splits)

lemma read_version_intro:
  assumes "files s (packageJsonPath r) = Some t" "JSON_parse L t = Inr doc"
    "get_property doc ''version'' = Inr v" "to_string v = Inr text"
  shows "read_version L r s =
    (Inr v, s\<lparr>trace := trace s @ [Read (packageJsonPath r), Log (msg_current_version @ text)]\<rparr>)"
  using assms unfolding read_version_def io_defs by simp

lemma update_cargo_ok:
  assumes "update_cargo L r v s1 = (Inr u, s2)"
  shows "\<exists>t cargo cargo' out text. files s1 (cargoTomlPath r) = Some t \<and> parse L t = Inr cargo \<and>
           set_package_version cargo v = Inr cargo' \<and> stringify L cargo' = Inr out \<and>
           cargoTomlPath r \<notin> read_only s1 \<and> to_string v = Inr text \<and>
           s2 = s1\<lparr>files := (files s1)(cargoTomlPath r \<mapsto> out),
                   trace := trace s1 @ [Read (cargoTomlPath r), Write (cargoTomlPath r) out,
                                        Log (msg_updated @ text)]\<rparr>"
  using assms unfolding update_cargo_def io_defs
  by (auto split: option.splits sum.splits prod.splits if_splits)

lemma update_cargo_intro:
  assumes "files s1 (cargoTomlPath r) = Some t" "parse L t = Inr cargo"
    "set_package_version cargo v = Inr cargo'" "stringify L cargo' = Inr out"
    "cargoTomlPath r \<notin> read_only s1" "to_string v = Inr text"
  shows "update_cargo L r v s1 =
    (Inr (), s1\<lparr>files := (files s1)(cargoTomlPath r \<mapsto> out),
                 trace := trace s1 @ [Read (cargoTomlPath r), Write (cargoTomlPath r) out,
                                      Log (msg_updated @ text)]\<rparr>)"
  using assms unfolding update_cargo_def io_defs by simp

lemma sync_stages:
  assumes "read_version L r s = (Inr v, s1)" "update_cargo L r v s1 = (Inr u, s2)"
  shows "sync_cargo_version L r s = amend_commit r s2"
  using assms unfolding sync_cargo_version_def seq_def by simp

lemma sync_completed:
  assumes "sync_cargo_version L r s = (Inr u, s')"
  shows "\<exists>v s1 s2. read_version L r s = (Inr v, s1) \<and> update_cargo L r v s1 = (Inr (), s2) \<and>
           amend_commit r s2 = (Inr (), s')"
  using assms unfolding sync_cargo_version_def seq_def
  by (auto split: sum.splits prod.splits)

lemma amend_commit_unstaged:
  assumes "\<not> (work_tree s \<and> files s (cargoTomlPath r) \<noteq> None)"
  shows "\<exists>m. amend_commit r s =
    (Inl (ProcessExit 1),
     s\<lparr>trace := trace s @ [Exec add_command r, LogError (msg_failed @ '' '' @ m)]\<rparr>)"
  using assms
  unfolding amend_commit_def execSync_add catch_block_def git_add_def io_defs add_command_def
  by (auto split: option.splits)

lemma amend_commit_blocked:
  assumes "work_tree s" "files s (cargoTomlPath r) = Some out" "head s = None \<or> amend_blocked s"
  shows "\<exists>m. amend_commit r s =
    (Inl (ProcessExit 1),
     s\<lparr>index := (index s)(cargoTomlPath r \<mapsto> out),
       trace := trace s @ [Exec add_command r, Exec amend_command r,
                           LogError (msg_failed @ '' '' @ m)]\<rparr>)"
  using assms
  unfolding amend_commit_def execSync_add execSync_amend catch_block_def git_add_def
    git_commit_amend_def io_defs add_command_def amend_command_def
  by (auto split: option.splits)

lemma amend_commit_done:
  assumes "work_tree s" "files s (cargoTomlPath r) = Some out" "head s = Some c"
    "\<not> amend_blocked s"
  shows "amend_commit r s =
    (Inr (),
     s\<lparr>index := (index s)(cargoTomlPath r \<mapsto> out),
       head := Some \<lparr>message = message c, tree = (index s)(cargoTomlPath r \<mapsto> out)\<rparr>,
       trace := trace s @ [Exec add_command r, Exec amend_command r, Log msg_added]\<rparr>)"
  using assms
  unfolding amend_commit_def execSync_add execSync_amend catch_block_def git_add_def
    git_commit_amend_def io_defs add_command_def amend_command_def
  by (auto split: option.splits)

text \<open>A run in which every step succeeds, in full.\<close>

lemma sync_run_done:
  assumes "files s (packageJsonPath r) = Some t" "JSON_parse L t = Inr doc"
    "get_property doc ''version'' = Inr v" "to_string v = Inr text"
    "files s (cargoTomlPath r) = Some ct" "parse L ct = Inr cargo"
    "set_package_version cargo v = Inr cargo'" "stringify L cargo' = Inr out"
    "cargoTomlPath r \<notin> read_only s" "work_tree s" "head s = Some c" "\<not> amend_blocked s"
  shows "sync_cargo_version L r s =
    (Inr (),
     s\<lparr>files := (files s)(cargoTomlPath r \<mapsto> out),
       index := (index s)(cargoTomlPath r \<mapsto> out),
       head := Some \<lparr>message = message c, tree = (index s)(cargoTomlPath r \<mapsto> out)\<rparr>,
       trace := trace s @
         [Read (packageJsonPath r), Log (msg_current_version @ text),
          Read (cargoTomlPath r), Write (cargoTomlPath r) out, Log (msg_updated @ text),
          Exec add_command r, Exec amend_command r, Log msg_added]\<rparr>)"
proof -
  let ?s1 = "s\<lparr>trace := trace s @ [Read (packageJsonPath r), Log (msg_current_version @ text)]\<rparr>"
  let ?s2 = "?s1\<lparr>files := (files ?s1)(cargoTomlPath r \<mapsto> out),
                 trace := trace ?s1 @ [Read (cargoTomlPath r), Write (cargoTomlPath r) out,
                                      Log (msg_updated @ text)]\<rparr>"
  have rv: "read_version L r s = (Inr v, ?s1)"
    using assms(1-4) by (rule read_version_intro)
  have uc: "update_cargo L r v ?s1 = (Inr (), ?s2)"
    by (rule update_cargo_intro[where t = ct and cargo = cargo and cargo' = cargo'])
       (use assms in simp_all)
  have ac: "amend_commit r ?s2 = (Inr (), ?s2\<lparr>index := (index ?s2)(cargoTomlPath r \<mapsto> out),
       head := Some \<lparr>message = message c, tree = (index ?s2)(cargoTomlPath r \<mapsto> out)\<rparr>,
       trace := trace ?s2 @ [Exec add_command r, Exec amend_command r, Log msg_added]\<rparr>)"
    by (rule amend_commit_done) (use assms in simp_all)
  show ?thesis
    unfolding sync_stages[OF rv uc] ac by simp
qed

subsection \<open>Assignment to a property\<close>

lemma lookup_assign_same: "lookup (assign ps k v) k = v"
  by (induction ps) auto

lemma lookup_assign_other: "k' \<noteq> k \<Longrightarrow> lookup (assign ps k v) k' = lookup ps k'"
  by (induction ps) auto

lemma keys_assign:
  "map fst (assign ps k v) = (if k \<in> fst ` set ps then map fst ps else map fst ps @ [k])"
  by (induction ps) (auto simp: rev_image_eqI)

lemma package_table_root:
  assumes "package_table cargo = Some ps"
  shows "\<exists>root. cargo = JObject root \<and> lookup root ''package'' = JObject ps"
  using assms by (cases cargo) (auto split: js_value.splits)

lemma set_package_version_table:
  assumes "cargo = JObject root" "lookup root ''package'' = JObject ps"
  shows "set_package_version cargo v =
           Inr (JObject (assign root ''package'' (JObject (assign ps ''version'' v))))"
  using assms by (simp add: set_package_version_def set_property_def)

text \<open>After the assignment of line 35, \<^verbatim>\<open>cargo.package.version\<close> is the value assigned.\<close>

lemma set_package_version_sets:
  assumes "set_package_version cargo v = Inr cargo'"
  shows "field_at cargo' [''package'', ''version''] = Inr v"
proof -
  from assms obtain pkg where pkg: "get_property cargo ''package'' = Inr pkg" "is_object pkg"
    and cargo': "cargo' = with_properties cargo (assign (own_properties cargo) ''package''
        (with_properties pkg (assign (own_properties pkg) ''version'' v)))"
    by (auto simp: set_package_version_def set_property_def split: sum.splits if_splits)
  from pkg have "lookup (own_properties cargo) ''package'' = pkg"
    by (cases cargo) auto
  with pkg(2) have "is_object cargo"
    by (cases cargo) auto
  then have "get_property cargo' ''package'' =
      Inr (with_properties pkg (assign (own_properties pkg) ''version'' v))"
    unfolding cargo' by (cases cargo) (simp_all add: lookup_assign_same)
  moreover from pkg(2) have "get_property
      (with_properties pkg (assign (own_properties pkg) ''version'' v)) ''version'' = Inr v"
    by (cases pkg) (simp_all add: lookup_assign_same)
  ultimately show ?thesis by simp
qed

text \<open>The string conversion of a primitive value does not throw.\<close>

lemma to_string_primitive: "\<not> is_object v \<Longrightarrow> \<exists>vs. to_string v = Inr vs"
  by (cases v) simp_all

lemma lookup_defined_key: "lookup ps k \<noteq> JUndefined \<Longrightarrow> k \<in> fst ` set ps"
  by (induction ps) (auto split: if_splits)

text \<open>Reading a path that leaves \<^verbatim>\<open>package.version\<close> aside, before and after the assignment.\<close>

lemma field_at_patched:
  assumes "lookup entries ''package'' = JObject ps"
    and "p \<noteq> []" "p \<noteq> [''package'']" "take 2 p \<noteq> [''package'', ''version'']"
  shows "field_at (JObject (assign entries ''package'' (JObject (assign ps ''version'' v)))) p =
         field_at (JObject entries) p"
proof (cases p)
  case Nil
  with assms show ?thesis by simp
next
  case (Cons k ks)
  show ?thesis
  proof (cases "k = ''package''")
    case False
    with Cons show ?thesis by (simp add: lookup_assign_other)
  next
    case True
    with Cons assms obtain k2 ks2 where ks: "ks = k2 # ks2" "k2 \<noteq> ''version''"
      by (cases ks) auto
    with Cons True assms(1) show ?thesis
      by (simp add: lookup_assign_same lookup_assign_other)
  qed
qed

text \<open>
  The text that is written depends on the text that was read only through its parse: two
  manifests that parse to the same document are rewritten to the same text.
\<close>

lemma same_parse_same_text:
  assumes "update_cargo L r v s1 = (Inr (), s2)" "update_cargo L r v t1 = (Inr (), t2)"
    and "files s1 (cargoTomlPath r) = Some a" "files t1 (cargoTomlPath r) = Some b"
    and "parse L a = parse L b"
  shows "files s2 (cargoTomlPath r) = files t2 (cargoTomlPath r)"
  using update_cargo_ok[OF assms(1)] update_cargo_ok[OF assms(2)] assms(3-5) by auto

subsection \<open>The frame condition on texts\<close>

text \<open>Texts that differ within one field have the same number of lines.\<close>

lemma strip_common_prefix_split:
  "strip_common_prefix a b = (a1, b1) \<Longrightarrow> \<exists>p. a = p @ a1 \<and> b = p @ b1"
proof (induction a b rule: strip_common_prefix.induct)
  case (1 x xs y ys)
  show ?case
  proof (cases "x = y")
    case True
    with 1 obtain p where "xs = p @ a1" "ys = p @ b1" by auto
    with True have "x # xs = (x # p) @ a1 \<and> y # ys = (x # p) @ b1" by simp
    then show ?thesis by blast
  next
    case False
    with 1 show ?thesis by auto
  qed
qed auto

lemma changed_span_split:
  assumes "changed_span a b = (x, y)"
  shows "\<exists>p q. a = p @ x @ q \<and> b = p @ y @ q"
proof -
  obtain a1 b1 where 1: "strip_common_prefix a b = (a1, b1)"
    by (cases "strip_common_prefix a b")
  obtain a2 b2 where 2: "strip_common_prefix (rev a1) (rev b1) = (a2, b2)"
    by (cases "strip_common_prefix (rev a1) (rev b1)")
  from assms 1 2 have xy: "x = rev a2" "y = rev b2" by (auto simp: changed_span_def)
  from strip_common_prefix_split[OF 1] obtain p where p: "a = p @ a1" "b = p @ b1" by blast
  from strip_common_prefix_split[OF 2] obtain q where "rev a1 = q @ a2" "rev b1 = q @ b2"
    by blast
  then have "a1 = rev (q @ a2)" "b1 = rev (q @ b2)"
    by (simp_all add: rev_swap)
  then have "a1 = rev a2 @ rev q" "b1 = rev b2 @ rev q"
    by simp_all
  with p xy have "a = p @ x @ rev q \<and> b = p @ y @ rev q" by simp
  then show ?thesis by blast
qed

lemma one_field_same_lines:
  assumes "differs_in_one_field_only a b"
  shows "count_list a (CHR 0x0A) = count_list b (CHR 0x0A)"
proof -
  obtain x y where xy: "changed_span a b = (x, y)" by (cases "changed_span a b")
  with assms have "CHR 0x0A \<notin> set x" "CHR 0x0A \<notin> set y"
    by (auto simp: differs_in_one_field_only_def)
  then have "count_list x (CHR 0x0A) = 0" "count_list y (CHR 0x0A) = 0"
    by (simp_all add: count_notin)
  with changed_span_split[OF xy] show ?thesis by auto
qed

subsection \<open>The commit step, case by case\<close>

lemma written_append: "written (xs @ ys) = written xs @ written ys"
  by (induction xs rule: written.induct) auto

lemma commands_append: "commands (xs @ ys) = commands xs @ commands ys"
  by (induction xs rule: commands.induct) auto

lemma logged_append: "logged (xs @ ys) = logged xs @ logged ys"
  by (induction xs rule: logged.induct) auto

lemma amend_commit_cases:
  assumes "amend_commit r s = (res, s')"
  obtains
    (unstaged) m where "\<not> (work_tree s \<and> files s (cargoTomlPath r) \<noteq> None)"
      "res = Inl (ProcessExit 1)"
      "s' = s\<lparr>trace := trace s @ [Exec add_command r, LogError (msg_failed @ '' '' @ m)]\<rparr>"
  | (blocked) out m where "work_tree s" "files s (cargoTomlPath r) = Some out"
      "head s = None \<or> amend_blocked s" "res = Inl (ProcessExit 1)"
      "s' = s\<lparr>index := (index s)(cargoTomlPath r \<mapsto> out),
               trace := trace s @ [Exec add_command r, Exec amend_command r,
                                   LogError (msg_failed @ '' '' @ m)]\<rparr>"
  | (amended) out c where "work_tree s" "files s (cargoTomlPath r) = Some out"
      "head s = Some c" "\<not> amend_blocked s" "res = Inr ()"
      "s' = s\<lparr>index := (index s)(cargoTomlPath r \<mapsto> out),
               head := Some \<lparr>message = message c, tree = (index s)(cargoTomlPath r \<mapsto> out)\<rparr>,
               trace := trace s @ [Exec add_command r, Exec amend_command r, Log msg_added]\<rparr>"
proof (cases "work_tree s \<and> files s (cargoTomlPath r) \<noteq> None")
  case False
  from amend_commit_unstaged[OF False, of ] assms unstaged[OF False] show ?thesis by auto
next
  case True
  then obtain out where out: "work_tree s" "files s (cargoTomlPath r) = Some out" by auto
  show ?thesis
  proof (cases "head s = None \<or> amend_blocked s")
    case True
    from amend_commit_blocked[OF out True] assms blocked[OF out True] show ?thesis by auto
  next
    case False
    then obtain c where c: "head s = Some c" "\<not> amend_blocked s" by auto
    from amend_commit_done[OF out c] assms amended[OF out c] show ?thesis by auto
  qed
qed

lemma amend_commit_files:
  assumes "amend_commit r s = (res, s')"
  shows "files s' = files s"
  using assms by (cases rule: amend_commit_cases) auto

lemma execSync_add_ok:
  assumes "work_tree s" "files s (cargoTomlPath r) = Some out"
  shows "execSync add_command r s =
    (Inr (), s\<lparr>index := (index s)(cargoTomlPath r \<mapsto> out),
                trace := trace s @ [Exec add_command r]\<rparr>)"
  using assms unfolding add_command_def execSync_add git_add_def record_event_def by simp

lemma execSync_amend_no_commit:
  assumes "head s = None"
  shows "\<exists>m. execSync amend_command r s =
    (Inl m, s\<lparr>trace := trace s @ [Exec amend_command r]\<rparr>)"
  using assms unfolding amend_command_def execSync_amend git_commit_amend_def record_event_def
  by simp

subsection \<open>The example repository\<close>

lemma sample_paths:
  "files (repo_state pkg cargo h) (cargoTomlPath sample_root) = Some cargo"
  "files (repo_state pkg cargo h) (packageJsonPath sample_root) = pkg"
  by (simp_all add: repo_state_def cargoTomlPath_def packageJsonPath_def sample_root_def)

lemma sample_fields:
  "read_only (repo_state pkg cargo h) = {}" "work_tree (repo_state pkg cargo h)"
  "index (repo_state pkg cargo h) = Map.empty" "head (repo_state pkg cargo h) = h"
  "\<not> amend_blocked (repo_state pkg cargo h)" "trace (repo_state pkg cargo h) = []"
  by (simp_all add: repo_state_def)

lemma sample_parse:
  "JSON_parse sample_lib (json_text ''0.1.7'') = Inr (JObject [(''version'', JString ''0.1.7'')])"
  "parse sample_lib (toml_text ''0.1.4'') = Inr (cargo_doc ''0.1.4'')"
  "parse sample_lib (toml_text ''0.1.7'') = Inr (cargo_doc ''0.1.7'')"
  "parse sample_lib toml_commented = Inr (cargo_doc ''0.1.4'')"
  "stringify sample_lib (cargo_doc ''0.1.7'') = Inr (toml_text ''0.1.7'')"
  "JSON_parse sample_lib (json_text []) = Inr (JObject [(''version'', JString [])])"
  "parse sample_lib (toml_text []) = Inr (cargo_doc [])"
  "stringify sample_lib (cargo_doc []) = Inr (toml_text [])"
  "parse sample_lib toml_array = Inr (JObject [(''package'', JArray [] [])])"
  "stringify sample_lib (JObject [(''package'', JArray [] [(''version'', JString ''0.1.7'')])]) = Inr toml_array"
  "JSON_parse sample_lib ''{}'' = Inr (JObject [])"
  "JSON_parse sample_lib json_object_version =
     Inr (JObject [(''version'', JObject [(''toString'', JNumber ''1'')])])"
  "parse sample_lib toml_no_package =
     Inr (JObject [(''dependencies'', JObject [(''serde'', JString ''1'')])])"
  by (simp_all add: sample_lib_def toml_text_def toml_commented_def json_text_def toml_array_def
        toml_no_package_def json_object_version_def cargo_doc_def)

lemma sample_set: "set_package_version (cargo_doc old) (JString v) = Inr (cargo_doc v)"
  by (simp add: set_package_version_def set_property_def cargo_doc_def)

text \<open>
  The first two stages on the example repository: \<^verbatim>\<open>package.json\<close> at \<^verbatim>\<open>0.1.7\<close>, a manifest at
  \<open>old\<close>, which is \<^verbatim>\<open>0.1.4\<close> or \<^verbatim>\<open>0.1.7\<close>.
\<close>

lemma sample_stages:
  fixes old :: string and h :: "commit option"
  assumes "old = ''0.1.4'' \<or> old = ''0.1.7''"
  defines "s \<equiv> repo_state (Some (json_text ''0.1.7'')) (toml_text old) h"
  shows "\<exists>s1. read_version sample_lib sample_root s = (Inr (JString ''0.1.7''), s1) \<and>
           update_cargo sample_lib sample_root (JString ''0.1.7'') s1 =
             (Inr (), s\<lparr>files := (files s)(cargoTomlPath sample_root \<mapsto> toml_text ''0.1.7''),
                        trace := [Read (packageJsonPath sample_root),
                                  Log (msg_current_version @ ''0.1.7''),
                                  Read (cargoTomlPath sample_root),
                                  Write (cargoTomlPath sample_root) (toml_text ''0.1.7''),
                                  Log (msg_updated @ ''0.1.7'')]\<rparr>)"
proof -
  let ?s1 = "s\<lparr>trace := trace s @ [Read (packageJsonPath sample_root),
                                    Log (msg_current_version @ ''0.1.7'')]\<rparr>"
  have rv: "read_version sample_lib sample_root s = (Inr (JString ''0.1.7''), ?s1)"
    unfolding s_def
    by (rule read_version_intro[where t = "json_text ''0.1.7''"
          and doc = "JObject [(''version'', JString ''0.1.7'')]"])
       (simp_all add: sample_paths sample_parse)
  have "parse sample_lib (toml_text old) = Inr (cargo_doc old)"
    using assms(1) by (auto simp: sample_parse)
  then have "update_cargo sample_lib sample_root (JString ''0.1.7'') ?s1 =
      (Inr (), ?s1\<lparr>files := (files ?s1)(cargoTomlPath sample_root \<mapsto> toml_text ''0.1.7''),
                   trace := trace ?s1 @ [Read (cargoTomlPath sample_root),
                                        Write (cargoTomlPath sample_root) (toml_text ''0.1.7''),
                                        Log (msg_updated @ ''0.1.7'')]\<rparr>)"
    by (intro update_cargo_intro[where t = "toml_text old" and cargo = "cargo_doc old"
          and cargo' = "cargo_doc ''0.1.7''"])
       (simp_all add: s_def sample_paths sample_parse sample_set sample_fields)
  with rv show ?thesis
    by (simp add: s_def sample_fields)
qed

section \<open>The claims\<close>

text \<open>
  Claim C1, as amended. For every version string \<open>V\<close> stored in \<^verbatim>\<open>package.json\<close> and every
  manifest that parses to a document with a \<^verbatim>\<open>package\<close> table, after a run that completes the
  \<^verbatim>\<open>Cargo.toml\<close> on disk is the serialisation of a document whose \<^verbatim>\<open>package.version\<close> is
  \<open>V\<close>; the commit step does not touch the file, and the amended HEAD commit holds this text
  at the manifest's path. Parsing the file yields \<^verbatim>\<open>package.version\<close> equal to \<open>V\<close> where the
  TOML library reads back the version string of a package table that it has serialised: that
  is a property of smol-toml, stated as a hypothesis.
\<close>


theorem written_manifest_has_primary_version:
  assumes primary: "files s (packageJsonPath r) = Some t" "JSON_parse L t = Inr doc"
      "get_property doc ''version'' = Inr (JString V)"
    and manifest: "files s (cargoTomlPath r) = Some ct" "parse L ct = Inr cargo"
      "package_table cargo = Some ps"
    and completed: "sync_cargo_version L r s = (Inr (), s')"
    and reads_back: "\<And>d qs out. package_table d = Some qs \<Longrightarrow>
      lookup qs ''version'' = JString V \<Longrightarrow> stringify L d = Inr out \<Longrightarrow>
      \<exists>d'. parse L out = Inr d' \<and> field_at d' [''package'', ''version''] = Inr (JString V)"
  shows "\<exists>out cargo' d' c.
           files s' (cargoTomlPath r) = Some out \<and>
           stringify L cargo' = Inr out \<and>
           field_at cargo' [''package'', ''version''] = Inr (JString V) \<and>
           parse L out = Inr d' \<and>
           field_at d' [''package'', ''version''] = Inr (JString V) \<and>
           head s' = Some c \<and> tree c (cargoTomlPath r) = Some out"
proof -
  from sync_completed[OF completed] obtain v s1 s2 where
    rv: "read_version L r s = (Inr v, s1)" and uc: "update_cargo L r v s1 = (Inr (), s2)"
    and ac: "amend_commit r s2 = (Inr (), s')" by blast
  from read_version_ok[OF rv] primary have v: "v = JString V"
    and s1: "files s1 = files s" by auto
  from update_cargo_ok[OF uc] manifest s1 obtain cargo' out where
    set: "set_package_version cargo v = Inr cargo'" and out: "stringify L cargo' = Inr out"
    and s2: "files s2 (cargoTomlPath r) = Some out" by auto
  from package_table_root[OF manifest(3)] obtain root where
    root: "cargo = JObject root" "lookup root ''package'' = JObject ps" by blast
  from set set_package_version_table[OF root, of v]
  have cargo': "cargo' = JObject (assign root ''package'' (JObject (assign ps ''version'' v)))"
    by simp
  have "package_table cargo' = Some (assign ps ''version'' v)"
    by (simp add: cargo' lookup_assign_same)
  moreover have "lookup (assign ps ''version'' v) ''version'' = JString V"
    by (simp add: lookup_assign_same v)
  ultimately obtain d' where "parse L out = Inr d'"
    "field_at d' [''package'', ''version''] = Inr (JString V)"
    using reads_back out by blast
  moreover have "field_at cargo' [''package'', ''version''] = Inr (JString V)"
    by (simp add: cargo' lookup_assign_same v)
  moreover from ac obtain c where "files s' (cargoTomlPath r) = Some out"
    "head s' = Some c" "tree c (cargoTomlPath r) = Some out"
    by (cases rule: amend_commit_cases) (use s2 in auto)
  ultimately show ?thesis using out by blast
qed

text \<open>The run of the example repository: \<^verbatim>\<open>0.1.4\<close> in the manifest, \<^verbatim>\<open>0.1.7\<close> in \<^verbatim>\<open>package.json\<close>.\<close>

theorem written_manifest_has_primary_version_witness:
  "\<exists>out d' c. files (snd (sync_cargo_version sample_lib sample_root
        (repo_state (Some (json_text ''0.1.7'')) (toml_text ''0.1.4'') (Some release_commit))))
        (cargoTomlPath sample_root) = Some out \<and>
     parse sample_lib out = Inr d' \<and>
     field_at d' [''package'', ''version''] = Inr (JString ''0.1.7'') \<and>
     head (snd (sync_cargo_version sample_lib sample_root
        (repo_state (Some (json_text ''0.1.7'')) (toml_text ''0.1.4'') (Some release_commit)))) =
       Some c \<and>
     tree c (cargoTomlPath sample_root) = Some out"
proof -
  let ?s = "repo_state (Some (json_text ''0.1.7'')) (toml_text ''0.1.4'') (Some release_commit)"
  obtain s' where run: "sync_cargo_version sample_lib sample_root ?s = (Inr (), s')"
    using sync_run_done[of ?s sample_root "json_text ''0.1.7''" sample_lib _ "JString ''0.1.7''" _
        "toml_text ''0.1.4''" "cargo_doc ''0.1.4''" "cargo_doc ''0.1.7''" "toml_text ''0.1.7''"
        release_commit]
    by (simp add: sample_paths sample_fields sample_parse sample_set)
  have rb: "\<exists>d'. parse sample_lib out = Inr d' \<and>
      field_at d' [''package'', ''version''] = Inr (JString ''0.1.7'')"
    if "package_table d = Some qs" "lookup qs ''version'' = JString ''0.1.7''"
      "stringify sample_lib d = Inr out" for d qs out
  proof -
    from that(3) have "d = cargo_doc ''0.1.7'' \<and> out = toml_text ''0.1.7'' \<or>
        d = cargo_doc [] \<and> out = toml_text [] \<or>
        d = JObject [(''package'', JArray [] [(''version'', JString ''0.1.7'')])]"
      by (auto simp: sample_lib_def split: if_splits)
    with that(1,2) have "out = toml_text ''0.1.7''"
      by (auto simp: cargo_doc_def)
    then show ?thesis by (simp add: sample_parse cargo_doc_def)
  qed
  have "\<exists>out cargo' d' c.
           files s' (cargoTomlPath sample_root) = Some out \<and>
           stringify sample_lib cargo' = Inr out \<and>
           field_at cargo' [''package'', ''version''] = Inr (JString ''0.1.7'') \<and>
           parse sample_lib out = Inr d' \<and>
           field_at d' [''package'', ''version''] = Inr (JString ''0.1.7'') \<and>
           head s' = Some c \<and> tree c (cargoTomlPath sample_root) = Some out"
    by (rule written_manifest_has_primary_version[where s = ?s and t = "json_text ''0.1.7''"
          and doc = "JObject [(''version'', JString ''0.1.7'')]"
          and ct = "toml_text ''0.1.4''" and cargo = "cargo_doc ''0.1.4''"
          and ps = "[(''name'', JString ''prism''), (''version'', JString ''0.1.4'')]",
          OF _ _ _ _ _ _ run rb])
       (simp_all add: sample_paths sample_parse cargo_doc_def)
  then obtain out d' c where
    "files s' (cargoTomlPath sample_root) = Some out" "parse sample_lib out = Inr d'"
    "field_at d' [''package'', ''version''] = Inr (JString ''0.1.7'')"
    "head s' = Some c" "tree c (cargoTomlPath sample_root) = Some out"
    by blast
  then show ?thesis
    unfolding run snd_conv by blast
qed

text \<open>
  The claim as the specification states it covers every run that completes. A manifest whose
  \<^verbatim>\<open>package\<close> is an array is accepted by the assignment of line 35, which sets a property on
  the array object; the run completes with the version \<^verbatim>\<open>0.1.7\<close>, and the file it has written
  parses to a document that has no \<^verbatim>\<open>package.version\<close>.
\<close>

theorem array_package_loses_version_counterexample:
  "JSON_parse sample_lib (json_text ''0.1.7'') = Inr (JObject [(''version'', JString ''0.1.7'')]) \<and>
   fst (sync_cargo_version sample_lib sample_root
      (repo_state (Some (json_text ''0.1.7'')) toml_array (Some release_commit))) = Inr () \<and>
   files (snd (sync_cargo_version sample_lib sample_root
      (repo_state (Some (json_text ''0.1.7'')) toml_array (Some release_commit))))
     (cargoTomlPath sample_root) = Some toml_array \<and>
   parse sample_lib toml_array = Inr (JObject [(''package'', JArray [] [])]) \<and>
   field_at (JObject [(''package'', JArray [] [])]) [''package'', ''version''] = Inr JUndefined"
proof -
  let ?s = "repo_state (Some (json_text ''0.1.7'')) toml_array (Some release_commit)"
  have "set_package_version (JObject [(''package'', JArray [] [])]) (JString ''0.1.7'') =
      Inr (JObject [(''package'', JArray [] [(''version'', JString ''0.1.7'')])])"
    by (simp add: set_package_version_def set_property_def)
  from sync_run_done[of ?s sample_root "json_text ''0.1.7''" sample_lib
      "JObject [(''version'', JString ''0.1.7'')]" "JString ''0.1.7''" "''0.1.7''" toml_array
      "JObject [(''package'', JArray [] [])]"
      "JObject [(''package'', JArray [] [(''version'', JString ''0.1.7'')])]" toml_array
      release_commit, OF _ _ _ _ _ _ this]
  show ?thesis
    by (simp add: sample_paths sample_fields sample_parse)
qed

text \<open>
  Claim C2. When the repository has no commit, the amend fails, and it fails after the manifest
  has been rewritten: a run that got as far as the commit step ends with exit status 1, having
  written \<^verbatim>\<open>Cargo.toml\<close> once. What it wrote is the serialisation of the parsed manifest with
  \<^verbatim>\<open>package.version\<close> set to the version read from \<^verbatim>\<open>package.json\<close>; the file still holds
  that text (nothing is reverted), there is still no commit, and the last thing printed is the
  diagnostic on standard error.
\<close>

theorem no_commit_fails_after_write:
  assumes rv: "read_version L r s = (Inr v, s1)"
    and uc: "update_cargo L r v s1 = (Inr (), s2)"
    and no_commit: "head s = None"
  shows "\<exists>s' ct cargo cargo' out m.
           files s (cargoTomlPath r) = Some ct \<and> parse L ct = Inr cargo \<and>
           set_package_version cargo v = Inr cargo' \<and>
           field_at cargo' [''package'', ''version''] = Inr v \<and>
           stringify L cargo' = Inr out \<and>
           sync_cargo_version L r s = (Inl (ProcessExit 1), s') \<and>
           exit_status (fst (sync_cargo_version L r s)) = 1 \<and>
           written (trace s') = written (trace s) @ [(cargoTomlPath r, out)] \<and>
           files s' (cargoTomlPath r) = Some out \<and>
           head s' = None \<and>
           last (trace s') = LogError (msg_failed @ '' '' @ m)"
proof -
  from read_version_ok[OF rv] have s1: "head s1 = head s" "written (trace s1) = written (trace s)"
    "files s1 = files s"
    by (auto simp: written_append)
  from update_cargo_ok[OF uc] s1(3) obtain ct cargo cargo' out where
    doc: "files s (cargoTomlPath r) = Some ct" "parse L ct = Inr cargo"
      "set_package_version cargo v = Inr cargo'" "stringify L cargo' = Inr out"
    and s2: "head s2 = head s1" "files s2 (cargoTomlPath r) = Some out"
      "written (trace s2) = written (trace s1) @ [(cargoTomlPath r, out)]"
    by (auto simp: written_append)
  note ver = set_package_version_sets[OF doc(3)]
  obtain res s' where ac: "amend_commit r s2 = (res, s')" by (cases "amend_commit r s2")
  have run: "sync_cargo_version L r s = (res, s')"
    using sync_stages[OF rv uc] ac by simp
  from ac have "\<exists>m. res = Inl (ProcessExit 1) \<and>
      written (trace s') = written (trace s) @ [(cargoTomlPath r, out)] \<and>
      files s' (cargoTomlPath r) = Some out \<and> head s' = None \<and>
      last (trace s') = LogError (msg_failed @ '' '' @ m)"
  proof (cases rule: amend_commit_cases)
    case (unstaged m)
    with s1 s2 no_commit show ?thesis by (auto simp: written_append)
  next
    case (blocked out' m)
    with s1 s2 no_commit show ?thesis by (auto simp: written_append)
  next
    case (amended out' c)
    with s1 s2 no_commit show ?thesis by simp
  qed
  then obtain m where "res = Inl (ProcessExit 1)"
      "written (trace s') = written (trace s) @ [(cargoTomlPath r, out)]"
      "files s' (cargoTomlPath r) = Some out" "head s' = None"
      "last (trace s') = LogError (msg_failed @ '' '' @ m)"
    by blast
  with run doc ver show ?thesis
    by (intro exI[of _ s'] exI[of _ ct] exI[of _ cargo] exI[of _ cargo'] exI[of _ out]
        exI[of _ m]) simp
qed

text \<open>
  The example repository before its first commit: the manifest read \<^verbatim>\<open>0.1.4\<close>, and it is left
  at \<^verbatim>\<open>0.1.7\<close>, a different text, with no commit.
\<close>

theorem no_commit_fails_after_write_witness:
  "files (repo_state (Some (json_text ''0.1.7'')) (toml_text ''0.1.4'') None)
     (cargoTomlPath sample_root) = Some (toml_text ''0.1.4'') \<and>
   toml_text ''0.1.7'' \<noteq> toml_text ''0.1.4'' \<and>
   stringify sample_lib (cargo_doc ''0.1.7'') = Inr (toml_text ''0.1.7'') \<and>
   (\<exists>s' m. sync_cargo_version sample_lib sample_root
       (repo_state (Some (json_text ''0.1.7'')) (toml_text ''0.1.4'') None) =
         (Inl (ProcessExit 1), s') \<and>
     exit_status (fst (sync_cargo_version sample_lib sample_root
       (repo_state (Some (json_text ''0.1.7'')) (toml_text ''0.1.4'') None))) = 1 \<and>
     written (trace s') = [(cargoTomlPath sample_root, toml_text ''0.1.7'')] \<and>
     files s' (cargoTomlPath sample_root) = Some (toml_text ''0.1.7'') \<and>
     head s' = None \<and>
     last (trace s') = LogError (msg_failed @ '' '' @ m))"
proof -
  let ?s = "repo_state (Some (json_text ''0.1.7'')) (toml_text ''0.1.4'') None"
  from sample_stages[of "''0.1.4''" None] obtain s1 s2 where
    rv: "read_version sample_lib sample_root ?s = (Inr (JString ''0.1.7''), s1)" and
    uc: "update_cargo sample_lib sample_root (JString ''0.1.7'') s1 = (Inr (), s2)"
    by auto
  from no_commit_fails_after_write[OF rv uc] obtain s' ct cargo cargo' out m where
    f: "files ?s (cargoTomlPath sample_root) = Some ct" "parse sample_lib ct = Inr cargo"
      "set_package_version cargo (JString ''0.1.7'') = Inr cargo'"
      "stringify sample_lib cargo' = Inr out"
      "sync_cargo_version sample_lib sample_root ?s = (Inl (ProcessExit 1), s')"
      "written (trace s') = written (trace ?s) @ [(cargoTomlPath sample_root, out)]"
      "files s' (cargoTomlPath sample_root) = Some out" "head s' = None"
      "last (trace s') = LogError (msg_failed @ '' '' @ m)"
    by (auto simp: sample_fields)
  from f(1) have "ct = toml_text ''0.1.4''" by (simp add: sample_paths)
  with f(2) have "cargo = cargo_doc ''0.1.4''" by (simp add: sample_parse)
  with f(3) have "cargo' = cargo_doc ''0.1.7''" by (simp add: sample_set)
  with f(4) have out: "out = toml_text ''0.1.7''" by (simp add: sample_parse)
  have "toml_text ''0.1.7'' \<noteq> toml_text ''0.1.4''" by (simp add: toml_text_def)
  with f out show ?thesis
    by (auto simp: sample_paths sample_parse sample_fields)
qed

text \<open>
  Claim C3, as amended. When the manifest parses and the document has no \<^verbatim>\<open>package\<close> key, or
  its \<^verbatim>\<open>package\<close> is a string, a number or a boolean, the assignment of line 35 throws a
  TypeError that nothing catches: the run ends with exit status 1 having read the two files
  and printed the version; no file is written, no command is run, the files are as they were.
\<close>

theorem missing_package_throws_before_write:
  assumes rv: "read_version L r s = (Inr v, s1)"
    and manifest: "files s (cargoTomlPath r) = Some ct" "parse L ct = Inr cargo"
    and package: "get_property cargo ''package'' = Inr p" "\<not> is_object p"
  shows "sync_cargo_version L r s =
           (Inl (Throw TypeError), s1\<lparr>trace := trace s1 @ [Read (cargoTomlPath r)]\<rparr>) \<and>
         exit_status (fst (sync_cargo_version L r s)) = 1 \<and>
         files (snd (sync_cargo_version L r s)) = files s \<and>
         written (trace (snd (sync_cargo_version L r s))) = written (trace s) \<and>
         commands (trace (snd (sync_cargo_version L r s))) = commands (trace s)"
proof -
  from read_version_ok[OF rv] have s1: "files s1 = files s"
    "written (trace s1) = written (trace s)" "commands (trace s1) = commands (trace s)"
    by (auto simp: written_append commands_append)
  have "set_package_version cargo v = Inl TypeError"
    using package by (simp add: set_package_version_def set_property_def)
  then have "update_cargo L r v s1 =
      (Inl (Throw TypeError), s1\<lparr>trace := trace s1 @ [Read (cargoTomlPath r)]\<rparr>)"
    using manifest s1 unfolding update_cargo_def io_defs by simp
  with rv have "sync_cargo_version L r s =
      (Inl (Throw TypeError), s1\<lparr>trace := trace s1 @ [Read (cargoTomlPath r)]\<rparr>)"
    unfolding sync_cargo_version_def seq_def by simp
  with s1 show ?thesis by (simp add: written_append commands_append)
qed

text \<open>A manifest with a \<^verbatim>\<open>dependencies\<close> table only.\<close>

theorem missing_package_throws_before_write_witness:
  "exit_status (fst (sync_cargo_version sample_lib sample_root
      (repo_state (Some (json_text ''0.1.7'')) toml_no_package (Some release_commit)))) = 1 \<and>
   files (snd (sync_cargo_version sample_lib sample_root
      (repo_state (Some (json_text ''0.1.7'')) toml_no_package (Some release_commit))))
     (cargoTomlPath sample_root) = Some toml_no_package \<and>
   written (trace (snd (sync_cargo_version sample_lib sample_root
      (repo_state (Some (json_text ''0.1.7'')) toml_no_package (Some release_commit))))) = [] \<and>
   commands (trace (snd (sync_cargo_version sample_lib sample_root
      (repo_state (Some (json_text ''0.1.7'')) toml_no_package (Some release_commit))))) = []"
proof -
  let ?s = "repo_state (Some (json_text ''0.1.7'')) toml_no_package (Some release_commit)"
  have rv: "read_version sample_lib sample_root ?s =
      (Inr (JString ''0.1.7''),
       ?s\<lparr>trace := trace ?s @ [Read (packageJsonPath sample_root),
                                Log (msg_current_version @ ''0.1.7'')]\<rparr>)"
    by (rule read_version_intro[where t = "json_text ''0.1.7''"
          and doc = "JObject [(''version'', JString ''0.1.7'')]"])
       (simp_all add: sample_paths sample_parse)
  from missing_package_throws_before_write[OF rv, of toml_no_package
      "JObject [(''dependencies'', JObject [(''serde'', JString ''1'')])]" JUndefined]
  show ?thesis
    by (simp add: sample_paths sample_fields sample_parse)
qed

text \<open>
  The claim as the specification states it asks for a failure whenever the manifest has no
  package table. A manifest whose \<^verbatim>\<open>package\<close> is an array has none, and the assignment sets a
  property on the array object without an exception: the run goes on, writes the file and
  completes.
\<close>

theorem package_array_counterexample:
  "parse sample_lib toml_array = Inr (JObject [(''package'', JArray [] [])]) \<and>
   package_table (JObject [(''package'', JArray [] [])]) = None \<and>
   fst (sync_cargo_version sample_lib sample_root
      (repo_state (Some (json_text ''0.1.7'')) toml_array (Some release_commit))) = Inr () \<and>
   written (trace (snd (sync_cargo_version sample_lib sample_root
      (repo_state (Some (json_text ''0.1.7'')) toml_array (Some release_commit))))) =
     [(cargoTomlPath sample_root, toml_array)]"
proof -
  let ?s = "repo_state (Some (json_text ''0.1.7'')) toml_array (Some release_commit)"
  have "set_package_version (JObject [(''package'', JArray [] [])]) (JString ''0.1.7'') =
      Inr (JObject [(''package'', JArray [] [(''version'', JString ''0.1.7'')])])"
    by (simp add: set_package_version_def set_property_def)
  from sync_run_done[of ?s sample_root "json_text ''0.1.7''" sample_lib
      "JObject [(''version'', JString ''0.1.7'')]" "JString ''0.1.7''" "''0.1.7''" toml_array
      "JObject [(''package'', JArray [] [])]"
      "JObject [(''package'', JArray [] [(''version'', JString ''0.1.7'')])]" toml_array
      release_commit, OF _ _ _ _ _ _ this]
  show ?thesis
    by (simp add: sample_paths sample_fields sample_parse)
qed

text \<open>
  Claim C4, as amended. When \<^verbatim>\<open>package.json\<close> is missing, is not valid JSON, parses to
  \<^verbatim>\<open>null\<close>, or holds at \<^verbatim>\<open>version\<close> a value whose conversion to a string throws (an object
  with a \<^verbatim>\<open>toString\<close> property of its own), the run ends with an uncaught exception (exit
  status 1) having done nothing but read that file: no file is written, nothing is staged, no
  command is run. In every other case the \<^verbatim>\<open>version\<close> field is not checked: the value the
  parsed document holds there is printed and the run goes on to update the manifest with it.
  That is so for every primitive value, \<^verbatim>\<open>undefined\<close> for an absent field and the empty string
  included: their conversion to a string does not throw.
\<close>

theorem unreadable_primary_stops_first:
  "((files s (packageJsonPath r) = None \<or>
     (\<exists>t. files s (packageJsonPath r) = Some t \<and>
        ((\<exists>e. JSON_parse L t = Inl e) \<or>
         (\<exists>doc. JSON_parse L t = Inr doc \<and>
            ((\<exists>e. get_property doc ''version'' = Inl e) \<or>
             (\<exists>v e. get_property doc ''version'' = Inr v \<and> to_string v = Inl e)))))) \<longrightarrow>
      (\<exists>e. sync_cargo_version L r s =
              (Inl (Throw e), s\<lparr>trace := trace s @ [Read (packageJsonPath r)]\<rparr>)) \<and>
      exit_status (fst (sync_cargo_version L r s)) = 1 \<and>
      files (snd (sync_cargo_version L r s)) = files s \<and>
      index (snd (sync_cargo_version L r s)) = index s \<and>
      written (trace (snd (sync_cargo_version L r s))) = written (trace s) \<and>
      commands (trace (snd (sync_cargo_version L r s))) = commands (trace s)) \<and>
   (files s (packageJsonPath r) = Some t \<and> JSON_parse L t = Inr doc \<and>
      get_property doc ''version'' = Inr v \<and> to_string v = Inr vs \<longrightarrow>
      sync_cargo_version L r s =
        seq (update_cargo L r v) (\<lambda>u. amend_commit r)
          (s\<lparr>trace := trace s @ [Read (packageJsonPath r),
                                   Log (msg_current_version @ vs)]\<rparr>)) \<and>
   (\<not> is_object v \<longrightarrow> (\<exists>vs. to_string v = Inr vs))"
proof (intro conjI impI)
  show "\<exists>vs. to_string v = Inr vs" if "\<not> is_object v"
    using that by (rule to_string_primitive)
next
  assume "files s (packageJsonPath r) = Some t \<and> JSON_parse L t = Inr doc \<and>
      get_property doc ''version'' = Inr v \<and> to_string v = Inr vs"
  then have "read_version L r s =
        (Inr v, s\<lparr>trace := trace s @ [Read (packageJsonPath r),
                                        Log (msg_current_version @ vs)]\<rparr>)"
    using read_version_intro by blast
  then show "sync_cargo_version L r s =
        seq (update_cargo L r v) (\<lambda>u. amend_commit r)
          (s\<lparr>trace := trace s @ [Read (packageJsonPath r),
                                   Log (msg_current_version @ vs)]\<rparr>)"
    unfolding sync_cargo_version_def by (simp add: seq_def)
next
  assume a: "files s (packageJsonPath r) = None \<or>
     (\<exists>t. files s (packageJsonPath r) = Some t \<and>
        ((\<exists>e. JSON_parse L t = Inl e) \<or>
         (\<exists>doc. JSON_parse L t = Inr doc \<and>
            ((\<exists>e. get_property doc ''version'' = Inl e) \<or>
             (\<exists>v e. get_property doc ''version'' = Inr v \<and> to_string v = Inl e)))))"
  then have "\<exists>e. read_version L r s =
      (Inl (Throw e), s\<lparr>trace := trace s @ [Read (packageJsonPath r)]\<rparr>)"
    unfolding read_version_def io_defs by auto
  then obtain e where run: "sync_cargo_version L r s =
      (Inl (Throw e), s\<lparr>trace := trace s @ [Read (packageJsonPath r)]\<rparr>)"
    unfolding sync_cargo_version_def seq_def by auto
  then show "\<exists>e. sync_cargo_version L r s =
      (Inl (Throw e), s\<lparr>trace := trace s @ [Read (packageJsonPath r)]\<rparr>)" by blast
  from run show "exit_status (fst (sync_cargo_version L r s)) = 1" by simp
  from run show "files (snd (sync_cargo_version L r s)) = files s" by simp
  from run show "index (snd (sync_cargo_version L r s)) = index s" by simp
  from run show "written (trace (snd (sync_cargo_version L r s))) = written (trace s)"
    by (simp add: written_append)
  from run show "commands (trace (snd (sync_cargo_version L r s))) = commands (trace s)"
    by (simp add: commands_append)
qed

text \<open>
  A repository without \<^verbatim>\<open>package.json\<close>, one whose version is an object with a \<^verbatim>\<open>toString\<close>
  property, and one whose \<^verbatim>\<open>package.json\<close> is \<^verbatim>\<open>{}\<close>.
\<close>

theorem unreadable_primary_stops_first_witness:
  "(\<exists>e. sync_cargo_version sample_lib sample_root
      (repo_state None (toml_text ''0.1.4'') (Some release_commit)) =
     (Inl (Throw e),
      (repo_state None (toml_text ''0.1.4'') (Some release_commit))
        \<lparr>trace := [Read (packageJsonPath sample_root)]\<rparr>)) \<and>
   (\<exists>e. sync_cargo_version sample_lib sample_root
      (repo_state (Some json_object_version) (toml_text ''0.1.4'') (Some release_commit)) =
     (Inl (Throw e),
      (repo_state (Some json_object_version) (toml_text ''0.1.4'') (Some release_commit))
        \<lparr>trace := [Read (packageJsonPath sample_root)]\<rparr>)) \<and>
   to_string (JObject [(''toString'', JNumber ''1'')]) = Inl TypeError \<and>
   sync_cargo_version sample_lib sample_root
      (repo_state (Some ''{}'') (toml_text ''0.1.4'') (Some release_commit)) =
     seq (update_cargo sample_lib sample_root JUndefined) (\<lambda>u. amend_commit sample_root)
       ((repo_state (Some ''{}'') (toml_text ''0.1.4'') (Some release_commit))
          \<lparr>trace := [Read (packageJsonPath sample_root),
                     Log (msg_current_version @ ''undefined'')]\<rparr>)"
proof -
  let ?s = "repo_state None (toml_text ''0.1.4'') (Some release_commit)"
  let ?o = "repo_state (Some json_object_version) (toml_text ''0.1.4'') (Some release_commit)"
  let ?t = "repo_state (Some ''{}'') (toml_text ''0.1.4'') (Some release_commit)"
  have ts: "to_string (JObject [(''toString'', JNumber ''1'')]) = Inl TypeError"
    by simp
  have 1: "\<exists>e. sync_cargo_version sample_lib sample_root ?s =
      (Inl (Throw e), ?s\<lparr>trace := [Read (packageJsonPath sample_root)]\<rparr>)"
    using unreadable_primary_stops_first[of ?s sample_root sample_lib]
    by (simp add: sample_paths sample_fields)
  have "\<exists>t. files ?o (packageJsonPath sample_root) = Some t \<and>
        ((\<exists>e. JSON_parse sample_lib t = Inl e) \<or>
         (\<exists>doc. JSON_parse sample_lib t = Inr doc \<and>
            ((\<exists>e. get_property doc ''version'' = Inl e) \<or>
             (\<exists>v e. get_property doc ''version'' = Inr v \<and> to_string v = Inl e))))"
    by (intro exI[of _ json_object_version]) (simp add: sample_paths sample_parse)
  then have 2: "\<exists>e. sync_cargo_version sample_lib sample_root ?o =
      (Inl (Throw e), ?o\<lparr>trace := [Read (packageJsonPath sample_root)]\<rparr>)"
    using unreadable_primary_stops_first[of ?o sample_root sample_lib]
    by (simp add: sample_fields)
  have 3: "sync_cargo_version sample_lib sample_root ?t =
     seq (update_cargo sample_lib sample_root JUndefined) (\<lambda>u. amend_commit sample_root)
       (?t\<lparr>trace := [Read (packageJsonPath sample_root),
                      Log (msg_current_version @ ''undefined'')]\<rparr>)"
    using unreadable_primary_stops_first[of ?t sample_root sample_lib "''{}''"
      "JObject []" JUndefined "''undefined''"]
    by (simp add: sample_paths sample_fields sample_parse)
  from 1 2 3 ts show ?thesis by blast
qed

text \<open>
  The claim as the specification states it asks for a failure when the version is not a
  non-empty string. With an empty string as version the run completes: the manifest is
  written with the empty version, staged and committed.
\<close>

theorem empty_version_counterexample:
  "JSON_parse sample_lib (json_text []) = Inr (JObject [(''version'', JString [])]) \<and>
   fst (sync_cargo_version sample_lib sample_root
      (repo_state (Some (json_text [])) (toml_text ''0.1.4'') (Some release_commit))) = Inr () \<and>
   written (trace (snd (sync_cargo_version sample_lib sample_root
      (repo_state (Some (json_text [])) (toml_text ''0.1.4'') (Some release_commit))))) =
     [(cargoTomlPath sample_root, toml_text [])] \<and>
   commands (trace (snd (sync_cargo_version sample_lib sample_root
      (repo_state (Some (json_text [])) (toml_text ''0.1.4'') (Some release_commit))))) =
     [(add_command, sample_root), (amend_command, sample_root)]"
proof -
  let ?s = "repo_state (Some (json_text [])) (toml_text ''0.1.4'') (Some release_commit)"
  from sync_run_done[of ?s sample_root "json_text []" sample_lib
      "JObject [(''version'', JString [])]" "JString []" "[]" "toml_text ''0.1.4''"
      "cargo_doc ''0.1.4''" "cargo_doc []" "toml_text []" release_commit]
  show ?thesis
    by (simp add: sample_paths sample_fields sample_parse sample_set)
qed

text \<open>
  Claim C5, as amended. For a manifest with a \<^verbatim>\<open>package\<close> table, the text written back is the
  serialisation of a document that differs from the parsed one at \<^verbatim>\<open>package.version\<close> only:
  \<^verbatim>\<open>package.version\<close> is the new version, every field path that does not pass through
  \<^verbatim>\<open>package.version\<close> reads the same value (a whole sibling table with the order of its keys
  included), the top-level keys keep their order, and so do the keys of \<^verbatim>\<open>package\<close>, with
  \<^verbatim>\<open>version\<close> added last when it was absent.
\<close>

theorem update_keeps_other_fields:
  assumes uc: "update_cargo L r v s1 = (Inr (), s2)"
    and manifest: "files s1 (cargoTomlPath r) = Some ct" "parse L ct = Inr cargo"
      "package_table cargo = Some ps"
  shows "\<exists>cargo' out.
           files s2 (cargoTomlPath r) = Some out \<and> stringify L cargo' = Inr out \<and>
           field_at cargo' [''package'', ''version''] = Inr v \<and>
           (\<forall>p. p \<noteq> [] \<and> p \<noteq> [''package''] \<and> take 2 p \<noteq> [''package'', ''version''] \<longrightarrow>
                field_at cargo' p = field_at cargo p) \<and>
           map fst (own_properties cargo') = map fst (own_properties cargo) \<and>
           (\<exists>ps'. package_table cargo' = Some ps' \<and>
                  map fst ps' = (if ''version'' \<in> fst ` set ps then map fst ps
                                 else map fst ps @ [''version'']))"
proof -
  from update_cargo_ok[OF uc] manifest obtain cargo' out where
    set: "set_package_version cargo v = Inr cargo'" and out: "stringify L cargo' = Inr out"
    and s2: "files s2 (cargoTomlPath r) = Some out" by auto
  from package_table_root[OF manifest(3)] obtain entries where
    entries: "cargo = JObject entries" "lookup entries ''package'' = JObject ps" by blast
  from set set_package_version_table[OF entries, of v]
  have cargo': "cargo' = JObject (assign entries ''package'' (JObject (assign ps ''version'' v)))"
    by simp
  have key: "''package'' \<in> fst ` set entries"
    using lookup_defined_key[of entries "''package''"] entries(2) by simp
  have 1: "field_at cargo' [''package'', ''version''] = Inr v"
    by (simp add: cargo' lookup_assign_same)
  have 2: "\<forall>p. p \<noteq> [] \<and> p \<noteq> [''package''] \<and> take 2 p \<noteq> [''package'', ''version''] \<longrightarrow>
      field_at cargo' p = field_at cargo p"
    using field_at_patched[OF entries(2)] by (simp add: cargo' entries(1))
  have 3: "map fst (own_properties cargo') = map fst (own_properties cargo)"
    using key by (simp add: cargo' entries(1) keys_assign)
  have 4: "\<exists>ps'. package_table cargo' = Some ps' \<and>
      map fst ps' = (if ''version'' \<in> fst ` set ps then map fst ps
                     else map fst ps @ [''version''])"
    by (simp add: cargo' lookup_assign_same keys_assign)
  from s2 out 1 2 3 4 show ?thesis by blast
qed

text \<open>The example manifest: name and dependencies are kept, in place.\<close>

theorem update_keeps_other_fields_witness:
  "\<exists>cargo'. stringify sample_lib cargo' = Inr (toml_text ''0.1.7'') \<and>
      field_at cargo' [''package'', ''version''] = Inr (JString ''0.1.7'') \<and>
      field_at cargo' [''package'', ''name''] = Inr (JString ''prism'') \<and>
      field_at cargo' [''dependencies''] = Inr (JObject [(''serde'', JString ''1'')]) \<and>
      map fst (own_properties cargo') = [''package'', ''dependencies''] \<and>
      (\<exists>ps'. package_table cargo' = Some ps' \<and> map fst ps' = [''name'', ''version''])"
proof -
  let ?s = "repo_state (Some (json_text ''0.1.7'')) (toml_text ''0.1.4'') (Some release_commit)"
  from sample_stages[of "''0.1.4''" "Some release_commit"] obtain s1 s2 where
    rv: "read_version sample_lib sample_root ?s = (Inr (JString ''0.1.7''), s1)" and
    uc: "update_cargo sample_lib sample_root (JString ''0.1.7'') s1 = (Inr (), s2)" and
    s2: "files s2 (cargoTomlPath sample_root) = Some (toml_text ''0.1.7'')"
    by auto
  from read_version_ok[OF rv] have s1: "files s1 (cargoTomlPath sample_root) = Some (toml_text ''0.1.4'')"
    by (auto simp: sample_paths)
  have pt: "package_table (cargo_doc ''0.1.4'') =
      Some [(''name'', JString ''prism''), (''version'', JString ''0.1.4'')]"
    by (simp add: cargo_doc_def)
  from update_keeps_other_fields[OF uc s1 _ pt] obtain cargo' where
    c: "stringify sample_lib cargo' = Inr (toml_text ''0.1.7'')"
      "field_at cargo' [''package'', ''version''] = Inr (JString ''0.1.7'')"
      "\<forall>p. p \<noteq> [] \<and> p \<noteq> [''package''] \<and> take 2 p \<noteq> [''package'', ''version''] \<longrightarrow>
           field_at cargo' p = field_at (cargo_doc ''0.1.4'') p"
      "map fst (own_properties cargo') = map fst (own_properties (cargo_doc ''0.1.4''))"
      "\<exists>ps'. package_table cargo' = Some ps' \<and> map fst ps' = [''name'', ''version'']"
    using s2 by (auto simp: sample_parse)
  have "field_at cargo' [''package'', ''name''] =
      field_at (cargo_doc ''0.1.4'') [''package'', ''name'']"
    using spec[OF c(3), of "[''package'', ''name'']"] by (simp del: field_at.simps)
  moreover have "field_at cargo' [''dependencies''] =
      field_at (cargo_doc ''0.1.4'') [''dependencies'']"
    using spec[OF c(3), of "[''dependencies'']"] by (simp del: field_at.simps)
  ultimately show ?thesis using c(1,2,4,5)
    by (intro exI[of _ cargo']) (simp add: cargo_doc_def)
qed

text \<open>
  The claim as the specification states it is about the texts: the text written back differs
  from the original in the version field only, comments included. The script hands the
  serialiser the parsed document and nothing of the original text, so a comment, which is
  not part of the document, is not written back. Two versions of one line do satisfy the
  condition; the commented manifest and what is written for it do not.
\<close>

lemma frame_condition_example: "differs_in_one_field_only (toml_text ''0.1.4'') (toml_text ''0.1.7'')"
  by (simp add: differs_in_one_field_only_def changed_span_def toml_text_def)

theorem comment_dropped_counterexample:
  "files (snd (sync_cargo_version sample_lib sample_root
      (repo_state (Some (json_text ''0.1.7'')) toml_commented (Some release_commit))))
     (cargoTomlPath sample_root) = Some (toml_text ''0.1.7'') \<and>
   \<not> differs_in_one_field_only toml_commented (toml_text ''0.1.7'')"
proof -
  let ?s = "repo_state (Some (json_text ''0.1.7'')) toml_commented (Some release_commit)"
  have "\<not> differs_in_one_field_only toml_commented (toml_text ''0.1.7'')"
    by (simp add: differs_in_one_field_only_def changed_span_def toml_text_def
        toml_commented_def)
  with sync_run_done[of ?s sample_root "json_text ''0.1.7''" sample_lib
      "JObject [(''version'', JString ''0.1.7'')]" "JString ''0.1.7''" "''0.1.7''" toml_commented
      "cargo_doc ''0.1.4''" "cargo_doc ''0.1.7''" "toml_text ''0.1.7''" release_commit]
  show ?thesis
    by (simp add: sample_paths sample_fields sample_parse sample_set)
qed

text \<open>
  This does not hang on what the serialiser returns. The commented manifest and the same
  manifest without its comment parse to the same document, so the same text is written for
  both (\<open>same_parse_same_text\<close>), and no text differs from both in one field only.
\<close>

lemma no_text_fits_both:
  "\<not> (differs_in_one_field_only toml_commented out \<and>
      differs_in_one_field_only (toml_text ''0.1.4'') out)"
proof
  assume "differs_in_one_field_only toml_commented out \<and>
      differs_in_one_field_only (toml_text ''0.1.4'') out"
  then have "count_list toml_commented (CHR 0x0A) = count_list (toml_text ''0.1.4'') (CHR 0x0A)"
    using one_field_same_lines[of toml_commented out]
      one_field_same_lines[of "toml_text ''0.1.4''" out] by simp
  then show False
    by (simp add: toml_commented_def toml_text_def)
qed

text \<open>
  Claim C7. Every run that reaches the write stage (the version was read, the manifest was
  parsed and patched, and the document was serialised) calls \<^verbatim>\<open>writeFileSync\<close> on the manifest
  with the serialised text, exactly once; nothing compares the old version with the new one.
  Where the file can be written it then holds that text.
\<close>

theorem manifest_written_unconditionally:
  assumes rv: "read_version L r s = (Inr v, s1)"
    and manifest: "files s (cargoTomlPath r) = Some ct" "parse L ct = Inr cargo"
    and patched: "set_package_version cargo v = Inr cargo'"
    and serialised: "stringify L cargo' = Inr out"
  shows "written (trace (snd (sync_cargo_version L r s))) =
           written (trace s) @ [(cargoTomlPath r, out)] \<and>
         (cargoTomlPath r \<notin> read_only s \<longrightarrow>
            files (snd (sync_cargo_version L r s)) (cargoTomlPath r) = Some out)"
proof -
  from read_version_ok[OF rv] obtain vs where
    s1: "files s1 = files s" "read_only s1 = read_only s"
      "written (trace s1) = written (trace s)" and vs: "to_string v = Inr vs"
    by (auto simp: written_append)
  show ?thesis
  proof (cases "cargoTomlPath r \<in> read_only s")
    case True
    have "update_cargo L r v s1 =
        (Inl (Throw (EACCES (cargoTomlPath r))),
         s1\<lparr>trace := trace s1 @ [Read (cargoTomlPath r), Write (cargoTomlPath r) out]\<rparr>)"
      using manifest patched serialised s1 True unfolding update_cargo_def io_defs by simp
    with rv have "sync_cargo_version L r s =
        (Inl (Throw (EACCES (cargoTomlPath r))),
         s1\<lparr>trace := trace s1 @ [Read (cargoTomlPath r), Write (cargoTomlPath r) out]\<rparr>)"
      unfolding sync_cargo_version_def seq_def by simp
    with True s1 show ?thesis by (simp add: written_append)
  next
    case False
    let ?s2 = "s1\<lparr>files := (files s1)(cargoTomlPath r \<mapsto> out),
                  trace := trace s1 @ [Read (cargoTomlPath r), Write (cargoTomlPath r) out,
                                       Log (msg_updated @ vs)]\<rparr>"
    have uc: "update_cargo L r v s1 = (Inr (), ?s2)"
      by (rule update_cargo_intro[where t = ct and cargo = cargo and cargo' = cargo'])
         (use manifest patched serialised s1 False vs in simp_all)
    obtain res s' where ac: "amend_commit r ?s2 = (res, s')" by (cases "amend_commit r ?s2")
    have run: "sync_cargo_version L r s = (res, s')"
      using sync_stages[OF rv uc] ac by simp
    from ac have "written (trace s') = written (trace ?s2) \<and> files s' = files ?s2"
      by (cases rule: amend_commit_cases) (auto simp: written_append)
    with run s1 show ?thesis by (simp add: written_append)
  qed
qed

text \<open>A manifest that already is at the version of \<^verbatim>\<open>package.json\<close> is written all the same.\<close>

theorem manifest_written_unconditionally_witness:
  "field_at (cargo_doc ''0.1.7'') [''package'', ''version''] = Inr (JString ''0.1.7'') \<and>
   written (trace (snd (sync_cargo_version sample_lib sample_root
      (repo_state (Some (json_text ''0.1.7'')) (toml_text ''0.1.7'') (Some release_commit))))) =
     [(cargoTomlPath sample_root, toml_text ''0.1.7'')] \<and>
   files (snd (sync_cargo_version sample_lib sample_root
      (repo_state (Some (json_text ''0.1.7'')) (toml_text ''0.1.7'') (Some release_commit))))
     (cargoTomlPath sample_root) = Some (toml_text ''0.1.7'')"
proof -
  let ?s = "repo_state (Some (json_text ''0.1.7'')) (toml_text ''0.1.7'') (Some release_commit)"
  from sample_stages[of "''0.1.7''" "Some release_commit"] obtain s1 where
    rv: "read_version sample_lib sample_root ?s = (Inr (JString ''0.1.7''), s1)"
    by auto
  have "field_at (cargo_doc ''0.1.7'') [''package'', ''version''] = Inr (JString ''0.1.7'')"
    by (simp add: cargo_doc_def)
  with manifest_written_unconditionally[OF rv, of "toml_text ''0.1.7''" "cargo_doc ''0.1.7''"
      "cargo_doc ''0.1.7''" "toml_text ''0.1.7''"]
  show ?thesis
    by (simp add: sample_paths sample_fields sample_parse sample_set)
qed

text \<open>
  Claim C8, as amended. The script returns no value and reports the new version only. A run
  that completes prints three lines on standard output and nothing on standard error: the
  version read from \<^verbatim>\<open>package.json\<close>, the confirmation that the manifest was updated to that
  version, and the confirmation that it was added to the release commit. The version the
  manifest had before is not among what is printed: the lines are determined by the new
  version alone.
\<close>

theorem console_reports_new_version_only:
  assumes "sync_cargo_version L r s = (Inr (), s')"
  shows "\<exists>v vs out. fst (read_version L r s) = Inr v \<and> to_string v = Inr vs \<and>
           trace s' = trace s @
             [Read (packageJsonPath r), Log (msg_current_version @ vs),
              Read (cargoTomlPath r), Write (cargoTomlPath r) out, Log (msg_updated @ vs),
              Exec add_command r, Exec amend_command r, Log msg_added] \<and>
           logged (trace s') = logged (trace s) @
             [msg_current_version @ vs, msg_updated @ vs, msg_added]"
proof -
  from sync_completed[OF assms] obtain v s1 s2 where
    rv: "read_version L r s = (Inr v, s1)" and uc: "update_cargo L r v s1 = (Inr (), s2)"
    and ac: "amend_commit r s2 = (Inr (), s')" by blast
  from read_version_ok[OF rv] obtain vs where vs: "to_string v = Inr vs"
    and s1: "trace s1 = trace s @ [Read (packageJsonPath r), Log (msg_current_version @ vs)]"
    by auto
  from update_cargo_ok[OF uc] vs obtain out where
    s2: "trace s2 = trace s1 @ [Read (cargoTomlPath r), Write (cargoTomlPath r) out,
                                Log (msg_updated @ vs)]"
    by auto
  from ac have "trace s' = trace s2 @ [Exec add_command r, Exec amend_command r, Log msg_added]"
    by (cases rule: amend_commit_cases) auto
  with s1 s2 have "trace s' = trace s @
             [Read (packageJsonPath r), Log (msg_current_version @ vs),
              Read (cargoTomlPath r), Write (cargoTomlPath r) out, Log (msg_updated @ vs),
              Exec add_command r, Exec amend_command r, Log msg_added]"
    by simp
  moreover from this have "logged (trace s') = logged (trace s) @
             [msg_current_version @ vs, msg_updated @ vs, msg_added]"
    by (simp add: logged_append)
  ultimately show ?thesis using rv vs by auto
qed

text \<open>The run of the example repository, its manifest already at \<^verbatim>\<open>0.1.7\<close>.\<close>

theorem console_reports_new_version_only_witness:
  "logged (trace (snd (sync_cargo_version sample_lib sample_root
      (repo_state (Some (json_text ''0.1.7'')) (toml_text ''0.1.7'') (Some release_commit))))) =
     [msg_current_version @ ''0.1.7'', msg_updated @ ''0.1.7'', msg_added]"
proof -
  let ?s = "repo_state (Some (json_text ''0.1.7'')) (toml_text ''0.1.7'') (Some release_commit)"
  from sample_stages[of "''0.1.7''" "Some release_commit"] obtain s1 where
    rv: "read_version sample_lib sample_root ?s = (Inr (JString ''0.1.7''), s1)"
    by auto
  obtain s' where run: "sync_cargo_version sample_lib sample_root ?s = (Inr (), s')"
    using sync_run_done[of ?s sample_root "json_text ''0.1.7''" sample_lib
      "JObject [(''version'', JString ''0.1.7'')]" "JString ''0.1.7''" "''0.1.7''"
      "toml_text ''0.1.7''" "cargo_doc ''0.1.7''" "cargo_doc ''0.1.7''" "toml_text ''0.1.7''"
      release_commit]
    by (simp add: sample_paths sample_fields sample_parse sample_set)
  from console_reports_new_version_only[OF run] rv show ?thesis
    by (auto simp: run sample_fields)
qed

text \<open>
  The claim as the specification states it has the old value \<^verbatim>\<open>0.1.4\<close> reported next to the
  new value \<^verbatim>\<open>0.1.7\<close>. The run of that scenario completes, and \<^verbatim>\<open>0.1.4\<close> occurs in none of the
  three lines it prints.
\<close>

theorem old_version_not_printed_counterexample:
  "fst (sync_cargo_version sample_lib sample_root
      (repo_state (Some (json_text ''0.1.7'')) (toml_text ''0.1.4'') (Some release_commit))) =
     Inr () \<and>
   trace (snd (sync_cargo_version sample_lib sample_root
      (repo_state (Some (json_text ''0.1.7'')) (toml_text ''0.1.4'') (Some release_commit)))) =
     [Read (packageJsonPath sample_root), Log (msg_current_version @ ''0.1.7''),
      Read (cargoTomlPath sample_root),
      Write (cargoTomlPath sample_root) (toml_text ''0.1.7''), Log (msg_updated @ ''0.1.7''),
      Exec add_command sample_root, Exec amend_command sample_root, Log msg_added] \<and>
   \<not> contains ''0.1.4'' (msg_current_version @ ''0.1.7'') \<and>
   \<not> contains ''0.1.4'' (msg_updated @ ''0.1.7'') \<and>
   \<not> contains ''0.1.4'' msg_added"
proof -
  let ?s = "repo_state (Some (json_text ''0.1.7'')) (toml_text ''0.1.4'') (Some release_commit)"
  have "\<not> contains ''0.1.4'' (msg_current_version @ ''0.1.7'')"
    "\<not> contains ''0.1.4'' (msg_updated @ ''0.1.7'')"
    "\<not> contains ''0.1.4'' msg_added"
    by (simp_all add: msg_current_version_def msg_updated_def msg_added_def)
  with sync_run_done[of ?s sample_root "json_text ''0.1.7''" sample_lib
      "JObject [(''version'', JString ''0.1.7'')]" "JString ''0.1.7''" "''0.1.7''"
      "toml_text ''0.1.4''" "cargo_doc ''0.1.4''" "cargo_doc ''0.1.7''" "toml_text ''0.1.7''"
      release_commit]
  show ?thesis
    by (simp add: sample_paths sample_fields sample_parse sample_set)
qed

text \<open>
  Claim C9. The commit step runs \<^verbatim>\<open>git add src-tauri/Cargo.toml\<close> and then
  \<^verbatim>\<open>git commit --amend --no-edit --no-verify\<close>, both in \<open>rootDir\<close>, in this order. Staging
  changes the index at the manifest's path and at no other; when staging fails, the amend is
  not run and index and HEAD stay as they were. A successful amend replaces HEAD by a commit
  with the old message whose tree is the index; the commit hooks are not consulted (the result
  is the same whether they would accept or not). No file is changed by the step.
\<close>

theorem commit_step_stages_then_amends:
  assumes "amend_commit r s = (res, s')"
  shows "files s' = files s \<and>
    (work_tree s \<and> files s (cargoTomlPath r) \<noteq> None \<longrightarrow>
       commands (trace s') = commands (trace s) @ [(add_command, r), (amend_command, r)] \<and>
       index s' = (index s)(cargoTomlPath r := files s (cargoTomlPath r))) \<and>
    (\<not> (work_tree s \<and> files s (cargoTomlPath r) \<noteq> None) \<longrightarrow>
       commands (trace s') = commands (trace s) @ [(add_command, r)] \<and>
       index s' = index s \<and> res = Inl (ProcessExit 1)) \<and>
    (res = Inr () \<longleftrightarrow>
       work_tree s \<and> files s (cargoTomlPath r) \<noteq> None \<and> head s \<noteq> None \<and> \<not> amend_blocked s) \<and>
    (res = Inr () \<longrightarrow>
       (\<exists>c. head s = Some c \<and> head s' = Some \<lparr>message = message c, tree = index s'\<rparr>)) \<and>
    (res \<noteq> Inr () \<longrightarrow> res = Inl (ProcessExit 1) \<and> head s' = head s) \<and>
    (\<forall>b. fst (amend_commit r (s\<lparr>hooks_accept := b\<rparr>)) = res)"
proof -
  have hooks: "fst (amend_commit r (s\<lparr>hooks_accept := b\<rparr>)) = res" for b
  proof -
    obtain res2 s2 where 2: "amend_commit r (s\<lparr>hooks_accept := b\<rparr>) = (res2, s2)"
      by (cases "amend_commit r (s\<lparr>hooks_accept := b\<rparr>)")
    from assms have "res2 = res"
    proof (cases rule: amend_commit_cases)
      case (unstaged m)
      from 2 show ?thesis by (cases rule: amend_commit_cases) (use unstaged in auto)
    next
      case (blocked out m)
      from 2 show ?thesis by (cases rule: amend_commit_cases) (use blocked in auto)
    next
      case (amended out c)
      from 2 show ?thesis by (cases rule: amend_commit_cases) (use amended in auto)
    qed
    with 2 show ?thesis by simp
  qed
  from assms have "files s' = files s \<and>
    (work_tree s \<and> files s (cargoTomlPath r) \<noteq> None \<longrightarrow>
       commands (trace s') = commands (trace s) @ [(add_command, r), (amend_command, r)] \<and>
       index s' = (index s)(cargoTomlPath r := files s (cargoTomlPath r))) \<and>
    (\<not> (work_tree s \<and> files s (cargoTomlPath r) \<noteq> None) \<longrightarrow>
       commands (trace s') = commands (trace s) @ [(add_command, r)] \<and>
       index s' = index s \<and> res = Inl (ProcessExit 1)) \<and>
    (res = Inr () \<longleftrightarrow>
       work_tree s \<and> files s (cargoTomlPath r) \<noteq> None \<and> head s \<noteq> None \<and> \<not> amend_blocked s) \<and>
    (res = Inr () \<longrightarrow>
       (\<exists>c. head s = Some c \<and> head s' = Some \<lparr>message = message c, tree = index s'\<rparr>)) \<and>
    (res \<noteq> Inr () \<longrightarrow> res = Inl (ProcessExit 1) \<and> head s' = head s)"
    by (cases rule: amend_commit_cases) (auto simp: commands_append)
  with hooks show ?thesis by blast
qed

text \<open>The commit step on the example repository with the manifest already written.\<close>

theorem commit_step_stages_then_amends_witness:
  "commands (trace (snd (amend_commit sample_root
      (repo_state None (toml_text ''0.1.7'') (Some release_commit))))) =
     [(''git add src-tauri/Cargo.toml'', sample_root),
      (''git commit --amend --no-edit --no-verify'', sample_root)] \<and>
   index (snd (amend_commit sample_root
      (repo_state None (toml_text ''0.1.7'') (Some release_commit)))) =
     [cargoTomlPath sample_root \<mapsto> toml_text ''0.1.7''] \<and>
   head (snd (amend_commit sample_root
      (repo_state None (toml_text ''0.1.7'') (Some release_commit)))) =
     Some \<lparr>message = ''chore(release): 0.1.7'',
           tree = [cargoTomlPath sample_root \<mapsto> toml_text ''0.1.7'']\<rparr> \<and>
   fst (amend_commit sample_root
      ((repo_state None (toml_text ''0.1.7'') (Some release_commit))\<lparr>hooks_accept := True\<rparr>)) =
     Inr ()"
proof -
  let ?s = "repo_state None (toml_text ''0.1.7'') (Some release_commit)"
  have "amend_commit sample_root ?s =
      (fst (amend_commit sample_root ?s), snd (amend_commit sample_root ?s))"
    by simp
  from commit_step_stages_then_amends[OF this] show ?thesis
    by (simp add: sample_paths sample_fields release_commit_def add_command_def
        amend_command_def)
qed

text \<open>
  Claim C10. In every run in which \<^verbatim>\<open>git add\<close> succeeds and the amend that follows fails,
  the script prints the diagnostic on standard error and ends with exit status 1; it does
  nothing after the failed command but print. The manifest is left as it was written and as it
  was staged: the file on disk and the index entry both hold the written text, and HEAD is
  the commit it was.
\<close>

theorem amend_failure_leaves_manifest_staged:
  assumes rv: "read_version L r s = (Inr v, s1)"
    and uc: "update_cargo L r v s1 = (Inr (), s2)"
    and staged: "execSync add_command r s2 = (Inr (), s3)"
    and failed: "execSync amend_command r s3 = (Inl m, s4)"
  shows "sync_cargo_version L r s =
           (Inl (ProcessExit 1), s4\<lparr>trace := trace s4 @ [LogError (msg_failed @ '' '' @ m)]\<rparr>) \<and>
         exit_status (fst (sync_cargo_version L r s)) = 1 \<and>
         trace s4 = trace s2 @ [Exec add_command r, Exec amend_command r] \<and>
         (\<exists>out. written (trace s4) = written (trace s) @ [(cargoTomlPath r, out)] \<and>
                files s4 (cargoTomlPath r) = Some out \<and>
                index s4 (cargoTomlPath r) = Some out) \<and>
         head s4 = head s"
proof -
  from read_version_ok[OF rv] have s1: "head s1 = head s" "written (trace s1) = written (trace s)"
    by (auto simp: written_append)
  from update_cargo_ok[OF uc] obtain out where
    s2: "head s2 = head s1" "files s2 (cargoTomlPath r) = Some out"
      "written (trace s2) = written (trace s1) @ [(cargoTomlPath r, out)]"
    by (auto simp: written_append)
  from staged s2(2) have s3: "s3 = s2\<lparr>index := (index s2)(cargoTomlPath r \<mapsto> out),
      trace := trace s2 @ [Exec add_command r]\<rparr>"
    unfolding add_command_def execSync_add git_add_def record_event_def
    by (auto split: if_splits)
  from failed have s4: "s4 = s3\<lparr>trace := trace s3 @ [Exec amend_command r]\<rparr>"
    unfolding amend_command_def execSync_amend git_commit_amend_def record_event_def
    by (auto split: if_splits option.splits)
  have "amend_commit r s2 =
      (Inl (ProcessExit 1), s4\<lparr>trace := trace s4 @ [LogError (msg_failed @ '' '' @ m)]\<rparr>)"
    using staged failed
    unfolding amend_commit_def add_command_def amend_command_def catch_block_def
      console_error_def record_event_def
    by simp
  then have "sync_cargo_version L r s =
      (Inl (ProcessExit 1), s4\<lparr>trace := trace s4 @ [LogError (msg_failed @ '' '' @ m)]\<rparr>)"
    using sync_stages[OF rv uc] by simp
  then show ?thesis
    using s1 s2 s3 s4 by (simp add: written_append)
qed

text \<open>The example repository before its first commit: staged, not committed.\<close>

theorem amend_failure_leaves_manifest_staged_witness:
  "exit_status (fst (sync_cargo_version sample_lib sample_root
       (repo_state (Some (json_text ''0.1.7'')) (toml_text ''0.1.4'') None))) = 1 \<and>
   (\<exists>m. trace (snd (sync_cargo_version sample_lib sample_root
       (repo_state (Some (json_text ''0.1.7'')) (toml_text ''0.1.4'') None))) =
        [Read (packageJsonPath sample_root), Log (msg_current_version @ ''0.1.7''),
         Read (cargoTomlPath sample_root),
         Write (cargoTomlPath sample_root) (toml_text ''0.1.7''),
         Log (msg_updated @ ''0.1.7''),
         Exec add_command sample_root, Exec amend_command sample_root,
         LogError (msg_failed @ '' '' @ m)]) \<and>
   files (snd (sync_cargo_version sample_lib sample_root
       (repo_state (Some (json_text ''0.1.7'')) (toml_text ''0.1.4'') None)))
     (cargoTomlPath sample_root) = Some (toml_text ''0.1.7'') \<and>
   index (snd (sync_cargo_version sample_lib sample_root
       (repo_state (Some (json_text ''0.1.7'')) (toml_text ''0.1.4'') None)))
     (cargoTomlPath sample_root) = Some (toml_text ''0.1.7'')"
proof -
  let ?s = "repo_state (Some (json_text ''0.1.7'')) (toml_text ''0.1.4'') None"
  let ?s2 = "?s\<lparr>files := (files ?s)(cargoTomlPath sample_root \<mapsto> toml_text ''0.1.7''),
                 trace := [Read (packageJsonPath sample_root),
                           Log (msg_current_version @ ''0.1.7''),
                           Read (cargoTomlPath sample_root),
                           Write (cargoTomlPath sample_root) (toml_text ''0.1.7''),
                           Log (msg_updated @ ''0.1.7'')]\<rparr>"
  let ?s3 = "?s2\<lparr>index := (index ?s2)(cargoTomlPath sample_root \<mapsto> toml_text ''0.1.7''),
                  trace := trace ?s2 @ [Exec add_command sample_root]\<rparr>"
  from sample_stages[of "''0.1.4''" None] obtain s1 where
    rv: "read_version sample_lib sample_root ?s = (Inr (JString ''0.1.7''), s1)" and
    uc: "update_cargo sample_lib sample_root (JString ''0.1.7'') s1 = (Inr (), ?s2)"
    by auto
  have staged: "execSync add_command sample_root ?s2 = (Inr (), ?s3)"
    by (rule execSync_add_ok) (simp_all add: sample_fields)
  obtain m where failed: "execSync amend_command sample_root ?s3 =
      (Inl m, ?s3\<lparr>trace := trace ?s3 @ [Exec amend_command sample_root]\<rparr>)"
    using execSync_amend_no_commit[of ?s3 sample_root] by (auto simp: sample_fields)
  from amend_failure_leaves_manifest_staged[OF rv uc staged failed]
  show ?thesis by (auto simp: sample_fields)
qed

end
